theory Spec2Isabelle
  imports Complex_Main
begin

section \<open>Python values, exceptions and strings\<close>

text \<open>
  The program is a Python script (\<^verbatim>\<open>src/app.py\<close>) whose data are dictionaries, lists
  and strings. They are embedded in one universe of Python values. A \<^verbatim>\<open>str\<close> is a
  \<^typ>\<open>string\<close>; its characters are the code points below 256. A \<^verbatim>\<open>dict\<close> with
  string keys is an association list in insertion order, looked up with \<^const>\<open>map_of\<close>.
  JSON numbers are restricted to integers.
\<close>

datatype py =
    PNone
  | PBool bool
  | PInt int
  | PStr string
  | PList "py list"
  | PDict "(string \<times> py) list"

type_synonym dict = "(string \<times> py) list"

text \<open>
  Exceptions. \<open>LibraryError msg\<close> is an exception raised inside a library call
  (\<^verbatim>\<open>requests\<close>, \<^verbatim>\<open>ElementTree\<close>, the Groq client); \<open>msg\<close> is its \<^verbatim>\<open>str(e)\<close>.
  The other three are raised by the interpreter itself.
\<close>

datatype exn = KeyError string | TypeError | AttributeError | LibraryError string

definition then_do :: "exn + 'a \<Rightarrow> ('a \<Rightarrow> exn + 'b) \<Rightarrow> exn + 'b" where
  "then_do r f = (case r of Inl e \<Rightarrow> Inl e | Inr x \<Rightarrow> f x)"

text \<open>A loop or comprehension over a list whose body may raise: the first exception ends it.\<close>

fun map_exn :: "('a \<Rightarrow> exn + 'b) \<Rightarrow> 'a list \<Rightarrow> exn + 'b list" where
  "map_exn f [] = Inr []"
| "map_exn f (x # xs) =
     then_do (f x) (\<lambda>y. then_do (map_exn f xs) (\<lambda>ys. Inr (y # ys)))"

text \<open>\<^verbatim>\<open>str.isspace\<close> on the code points below 256.\<close>

definition isspace :: "char \<Rightarrow> bool" where
  "isspace c \<longleftrightarrow> c \<in> set [CHR 0x09, CHR 0x0A, CHR 0x0B, CHR 0x0C, CHR 0x0D,
     CHR 0x1C, CHR 0x1D, CHR 0x1E, CHR 0x1F, CHR 0x20, CHR 0x85, CHR 0xA0]"

text \<open>\<^verbatim>\<open>s.strip()\<close>\<close>

definition strip :: "string \<Rightarrow> string" where
  "strip s = rev (dropWhile isspace (rev (dropWhile isspace s)))"

text \<open>\<^verbatim>\<open>s.split(sep)\<close> for a separator of one character.\<close>

fun split :: "char \<Rightarrow> string \<Rightarrow> string list" where
  "split sep [] = [[]]"
| "split sep (c # cs) =
     (if c = sep then [] # split sep cs
      else (case split sep cs of [] \<Rightarrow> [[c]] | p # ps \<Rightarrow> (c # p) # ps))"

text \<open>\<^verbatim>\<open>sep.join(xs)\<close> on a list of strings.\<close>

fun join :: "string \<Rightarrow> string list \<Rightarrow> string" where
  "join sep [] = []"
| "join sep [x] = x"
| "join sep (x # y # ys) = x @ sep @ join sep (y # ys)"

text \<open>\<^verbatim>\<open>s.replace(old, new)\<close> for \<open>old\<close> and \<open>new\<close> of one character.\<close>

definition replace :: "char \<Rightarrow> char \<Rightarrow> string \<Rightarrow> string" where
  "replace old new s = map (\<lambda>c. if c = old then new else c) s"

text \<open>\<^verbatim>\<open>str(n)\<close> for an integer.\<close>

fun str_nat :: "nat \<Rightarrow> string" where
  "str_nat n =
     (if n < 10 then [''0123456789'' ! n]
      else str_nat (n div 10) @ [''0123456789'' ! (n mod 10)])"

declare str_nat.simps [simp del]

definition str_int :: "int \<Rightarrow> string" where
  "str_int i = (if i < 0 then CHR ''-'' # str_nat (nat (- i)) else str_nat (nat i))"

text \<open>
  What an f-string puts in place of \<^verbatim>\<open>{v}\<close>. Python's \<^verbatim>\<open>repr\<close> of lists and
  dictionaries is a parameter.
\<close>

definition fmt :: "(py \<Rightarrow> string) \<Rightarrow> py \<Rightarrow> string" where
  "fmt repr v =
     (case v of
        PStr s \<Rightarrow> s
      | PNone \<Rightarrow> ''None''
      | PBool b \<Rightarrow> (if b then ''True'' else ''False'')
      | PInt i \<Rightarrow> str_int i
      | _ \<Rightarrow> repr v)"

text \<open>\<^verbatim>\<open>bool(v)\<close>\<close>

definition truthy :: "py \<Rightarrow> bool" where
  "truthy v =
     (case v of
        PNone \<Rightarrow> False
      | PBool b \<Rightarrow> b
      | PInt i \<Rightarrow> i \<noteq> 0
      | PStr s \<Rightarrow> s \<noteq> []
      | PList xs \<Rightarrow> xs \<noteq> []
      | PDict d \<Rightarrow> d \<noteq> [])"

text \<open>\<^verbatim>\<open>v[key]\<close> with a string key: only a dictionary accepts it.\<close>

definition getitem :: "py \<Rightarrow> string \<Rightarrow> exn + py" where
  "getitem v key =
     (case v of
        PDict d \<Rightarrow> (case map_of d key of None \<Rightarrow> Inl (KeyError key) | Some x \<Rightarrow> Inr x)
      | _ \<Rightarrow> Inl TypeError)"

text \<open>\<^verbatim>\<open>v.get(key, default)\<close>: only a dictionary has the method.\<close>

definition get :: "py \<Rightarrow> string \<Rightarrow> py \<Rightarrow> exn + py" where
  "get v key dflt =
     (case v of
        PDict d \<Rightarrow> (case map_of d key of None \<Rightarrow> Inr dflt | Some x \<Rightarrow> Inr x)
      | _ \<Rightarrow> Inl AttributeError)"

text \<open>\<^verbatim>\<open>d.get(key, default)\<close> on a value known to be a dictionary.\<close>

definition dict_get :: "dict \<Rightarrow> string \<Rightarrow> py \<Rightarrow> py" where
  "dict_get d key dflt = (case map_of d key of None \<Rightarrow> dflt | Some x \<Rightarrow> x)"

text \<open>\<^verbatim>\<open>len(v)\<close>\<close>

definition len :: "py \<Rightarrow> exn + nat" where
  "len v =
     (case v of
        PStr s \<Rightarrow> Inr (length s)
      | PList xs \<Rightarrow> Inr (length xs)
      | PDict d \<Rightarrow> Inr (length d)
      | _ \<Rightarrow> Inl TypeError)"

text \<open>The items \<^verbatim>\<open>for x in v\<close> goes through.\<close>

definition iter :: "py \<Rightarrow> exn + py list" where
  "iter v =
     (case v of
        PStr s \<Rightarrow> Inr (map (\<lambda>c. PStr [c]) s)
      | PList xs \<Rightarrow> Inr xs
      | PDict d \<Rightarrow> Inr (map (\<lambda>kv. PStr (fst kv)) d)
      | _ \<Rightarrow> Inl TypeError)"

text \<open>\<^verbatim>\<open>v[:n]\<close>. Slicing a dictionary raises (a \<^verbatim>\<open>TypeError\<close> before Python 3.12).\<close>

definition slice_to :: "nat \<Rightarrow> py \<Rightarrow> exn + py" where
  "slice_to n v =
     (case v of
        PStr s \<Rightarrow> Inr (PStr (take n s))
      | PList xs \<Rightarrow> Inr (PList (take n xs))
      | _ \<Rightarrow> Inl TypeError)"

text \<open>\<^verbatim>\<open>sep.join(v)\<close>: every item of \<open>v\<close> has to be a string.\<close>

definition as_str :: "py \<Rightarrow> exn + string" where
  "as_str v = (case v of PStr s \<Rightarrow> Inr s | _ \<Rightarrow> Inl TypeError)"

definition py_join :: "string \<Rightarrow> py \<Rightarrow> exn + string" where
  "py_join sep v =
     then_do (iter v) (\<lambda>items. then_do (map_exn as_str items) (\<lambda>ss. Inr (join sep ss)))"

text \<open>\<^verbatim>\<open>sub in s\<close> for two strings: \<open>sub\<close> occurs in \<open>s\<close>.\<close>

fun is_substring :: "string \<Rightarrow> string \<Rightarrow> bool" where
  "is_substring sub [] = (sub = [])"
| "is_substring sub (c # cs) = (take (length sub) (c # cs) = sub \<or> is_substring sub cs)"

text \<open>
  \<^verbatim>\<open>key in v\<close> for a string \<open>key\<close>: a key of a dictionary, an item of a list, a
  part of a string; \<^verbatim>\<open>None\<close>, a \<^verbatim>\<open>bool\<close> and an \<^verbatim>\<open>int\<close> are not iterable.
\<close>

definition contains :: "py \<Rightarrow> string \<Rightarrow> exn + bool" where
  "contains v key =
     (case v of
        PDict d \<Rightarrow> Inr (map_of d key \<noteq> None)
      | PList xs \<Rightarrow> Inr (PStr key \<in> set xs)
      | PStr s \<Rightarrow> Inr (is_substring key s)
      | _ \<Rightarrow> Inl TypeError)"

text \<open>The evaluation returns a value: no exception is raised.\<close>

definition returns :: "exn + 'a \<Rightarrow> bool" where
  "returns r = (case r of Inl e \<Rightarrow> False | Inr x \<Rightarrow> True)"

section \<open>The outside world\<close>

text \<open>
  The three external services answer through oracles. An oracle is asked at a time, the
  number of external calls made before, so the same request may be answered differently
  when it is repeated. Every external call is appended to \<open>calls\<close>; everything shown
  with \<^verbatim>\<open>st.error\<close> is appended to \<open>shown\<close>.
\<close>

text \<open>
  The result of \<^verbatim>\<open>element.find(tag)\<close>: no such child (\<^verbatim>\<open>None\<close>), or an element
  with its \<^verbatim>\<open>.text\<close>, which is \<^verbatim>\<open>None\<close> for an element without text.
\<close>

datatype node = Missing | Element "string option"

text \<open>
  One \<^verbatim>\<open>entry\<close> element of the Atom feed: what \<^verbatim>\<open>find\<close> gives for the four tags
  read, and for each \<^verbatim>\<open>author\<close> child what \<^verbatim>\<open>find\<close> gives for its \<^verbatim>\<open>name\<close>.
\<close>

record entry =
  title_el :: node
  author_name_els :: "node list"
  summary_el :: node
  published_el :: node
  id_el :: node

text \<open>\<^verbatim>\<open>ET.fromstring(response.content)\<close>: a parse error, or the entries of the root.\<close>

datatype xml = ParseError string | Feed "entry list"

text \<open>
  \<^verbatim>\<open>requests.get\<close> on the arXiv endpoint: it raises, or gives a response with a status
  code, the message \<^verbatim>\<open>raise_for_status\<close> raises with for an error status, and the content.
\<close>

datatype arxiv_response = Arxiv_raises string | Arxiv_response nat string xml

text \<open>
  \<^verbatim>\<open>requests.get\<close> on the Semantic Scholar endpoint: it raises (also a timeout), or
  gives a status code and what \<^verbatim>\<open>response.json()\<close> returns: the value of the body,
  which is any JSON value, an object or not (\<open>None\<close> when \<^verbatim>\<open>json()\<close> raises). The
  JSON value \<^verbatim>\<open>null\<close> is \<^const>\<open>PNone\<close>.
\<close>

datatype scholar_response = Scholar_raises | Scholar_response nat "py option"

text \<open>
  \<^verbatim>\<open>groq_client.chat.completions.create(model=..., messages=[{"role": "user",
  "content": prompt}], temperature=...)\<close> followed by
  \<^verbatim>\<open>response.choices[0].message.content\<close>: an exception with its \<^verbatim>\<open>str(e)\<close>, or the
  text of the first completion.
\<close>

record groq_request =
  model :: string
  prompt :: string
  temperature :: rat

datatype groq_reply = Groq_raises string | Groq_content string

datatype call =
    Arxiv_call string dict
  | Scholar_call string dict nat
  | Groq_call string groq_request

datatype ui =
    St_error string
  | St_error_exn string exn
  | Citation_heading
  | St_metric string py
  | Unavailable_note
  | Citation_chart py py
  | No_visualization_note

record env =
  GROQ_API_KEY :: "string option"
  arxiv_get :: "nat \<Rightarrow> string \<Rightarrow> dict \<Rightarrow> arxiv_response"
  scholar_get :: "nat \<Rightarrow> string \<Rightarrow> scholar_response"
  groq_create :: "nat \<Rightarrow> groq_request \<Rightarrow> groq_reply"
  repr :: "py \<Rightarrow> string"

record world =
  calls :: "call list"
  shown :: "ui list"

definition st_error :: "string \<Rightarrow> world \<Rightarrow> world" where
  "st_error msg w = w\<lparr>shown := shown w @ [St_error msg]\<rparr>"

text \<open>\<^verbatim>\<open>st.error(f"{prefix}{str(e)}")\<close>\<close>

definition st_error_exn :: "string \<Rightarrow> exn \<Rightarrow> world \<Rightarrow> world" where
  "st_error_exn prefix e w = w\<lparr>shown := shown w @ [St_error_exn prefix e]\<rparr>"

definition record_call :: "call \<Rightarrow> world \<Rightarrow> world" where
  "record_call c w = w\<lparr>calls := calls w @ [c]\<rparr>"

section \<open>ArxivAPI\<close>

text \<open>\<^verbatim>\<open>entry.find(tag).text\<close>\<close>

definition text_of :: "node \<Rightarrow> exn + string option" where
  "text_of n = (case n of Missing \<Rightarrow> Inl AttributeError | Element t \<Rightarrow> Inr t)"

text \<open>\<^verbatim>\<open>entry.find(tag).text.strip()\<close>\<close>

definition text_strip :: "node \<Rightarrow> exn + string" where
  "text_strip n =
     then_do (text_of n) (\<lambda>t. case t of None \<Rightarrow> Inl AttributeError | Some s \<Rightarrow> Inr (strip s))"

text \<open>\<^verbatim>\<open>author.find("{...}name").text\<close>: a text of \<^verbatim>\<open>None\<close> is kept as it is.\<close>

definition author_name :: "node \<Rightarrow> exn + py" where
  "author_name n =
     then_do (text_of n) (\<lambda>t. case t of None \<Rightarrow> Inr PNone | Some s \<Rightarrow> Inr (PStr s))"

text \<open>The dictionary built for one entry (lines 104 to 112), its values in source order.\<close>

definition paper_of_entry :: "entry \<Rightarrow> exn + py" where
  "paper_of_entry e =
     then_do (text_strip (title_el e)) (\<lambda>title.
     then_do (map_exn author_name (author_name_els e)) (\<lambda>authors.
     then_do (text_strip (summary_el e)) (\<lambda>abstract.
     then_do (then_do (text_of (published_el e))
                (\<lambda>t. case t of None \<Rightarrow> Inl TypeError | Some s \<Rightarrow> Inr (take 10 s))) (\<lambda>published.
     then_do (then_do (text_of (id_el e))
                (\<lambda>t. case t of None \<Rightarrow> Inr PNone | Some s \<Rightarrow> Inr (PStr s))) (\<lambda>url.
     then_do (then_do (text_of (id_el e))
                (\<lambda>t. case t of None \<Rightarrow> Inl AttributeError
                             | Some s \<Rightarrow> Inr (last (split CHR ''/'' s)))) (\<lambda>arxiv_id.
     Inr (PDict
       [(''title'', PStr title),
        (''authors'', PList authors),
        (''abstract'', PStr abstract),
        (''published'', PStr published),
        (''url'', url),
        (''arxiv_id'', PStr arxiv_id)])))))))"

definition arxiv_base_url :: string where
  "arxiv_base_url = ''http://export.arxiv.org/api/query''"

definition arxiv_params :: "string \<Rightarrow> int \<Rightarrow> dict" where
  "arxiv_params query max_results =
     [(''search_query'', PStr (''all:'' @ query)),
      (''start'', PInt 0),
      (''max_results'', PInt max_results),
      (''sortBy'', PStr ''relevance''),
      (''sortOrder'', PStr ''descending'')]"

text \<open>\<^verbatim>\<open>response.raise_for_status()\<close> raises for the status codes 400 to 599.\<close>

definition raise_for_status :: "nat \<Rightarrow> string \<Rightarrow> exn + unit" where
  "raise_for_status status msg =
     (if 400 \<le> status \<and> status < 600 then Inl (LibraryError msg) else Inr ())"

text \<open>The \<^verbatim>\<open>try\<close> block of \<^verbatim>\<open>ArxivAPI.search_papers\<close> once the request has been answered.\<close>

definition arxiv_papers :: "arxiv_response \<Rightarrow> exn + py list" where
  "arxiv_papers r =
     (case r of
        Arxiv_raises msg \<Rightarrow> Inl (LibraryError msg)
      | Arxiv_response status msg content \<Rightarrow>
          then_do (raise_for_status status msg) (\<lambda>_.
            case content of
              ParseError m \<Rightarrow> Inl (LibraryError m)
            | Feed entries \<Rightarrow> map_exn paper_of_entry entries))"

definition ArxivAPI_search_papers :: "env \<Rightarrow> string \<Rightarrow> int \<Rightarrow> world \<Rightarrow> py list \<times> world" where
  "ArxivAPI_search_papers env query max_results w =
     (let params = arxiv_params query max_results;
          response = arxiv_get env (length (calls w)) arxiv_base_url params;
          w1 = record_call (Arxiv_call arxiv_base_url params) w
      in case arxiv_papers response of
           Inr papers \<Rightarrow> (papers, w1)
         | Inl e \<Rightarrow> ([], st_error_exn ''Error fetching from arXiv: '' e w1))"

section \<open>SemanticScholarAPI\<close>

definition scholar_headers :: dict where
  "scholar_headers =
     [(''User-Agent'', PStr ''AI-Research-Summarizer/1.0 (https://github.com/your-repo)'')]"

text \<open>
  \<^verbatim>\<open>get_paper_details\<close> returns what \<^verbatim>\<open>response.json()\<close> gives, whatever it is, when
  the status is 200, and the empty dictionary otherwise, also when anything raises.
\<close>

definition SemanticScholarAPI_get_paper_details :: "env \<Rightarrow> py \<Rightarrow> world \<Rightarrow> py \<times> world" where
  "SemanticScholarAPI_get_paper_details env arxiv_id w =
     (let search_url =
            ''https://api.semanticscholar.org/graph/v1/paper/arXiv:'' @ fmt (repr env) arxiv_id;
          response = scholar_get env (length (calls w)) search_url;
          w1 = record_call (Scholar_call search_url scholar_headers 10) w
      in case response of
           Scholar_raises \<Rightarrow> (PDict [], w1)
         | Scholar_response status_code json \<Rightarrow>
             (if status_code = 200
              then (case json of None \<Rightarrow> (PDict [], w1) | Some data \<Rightarrow> (data, w1))
              else (PDict [], w1)))"

text \<open>
  The \<^verbatim>\<open>try\<close> block of \<^verbatim>\<open>get_related_works\<close> after the paper details are fetched:
  \<^verbatim>\<open>paper_data and "references" in paper_data\<close>, then
  \<^verbatim>\<open>paper_data.get("references", [])[:5]\<close>. It raises when \<open>paper_data\<close> is a number,
  when it is a list or a string that contains \<^verbatim>\<open>"references"\<close>, and when the references
  cannot be sliced.
\<close>

definition related_works_of :: "py \<Rightarrow> exn + py" where
  "related_works_of paper_data =
     (if truthy paper_data
      then then_do (contains paper_data ''references'') (\<lambda>found.
             if found
             then then_do (get paper_data ''references'' (PList [])) (slice_to 5)
             else Inr (PList []))
      else Inr (PList []))"

text \<open>
  \<^verbatim>\<open>get_related_works\<close> fetches the paper details again; whatever is raised is caught
  and the empty list returned.
\<close>

definition SemanticScholarAPI_get_related_works :: "env \<Rightarrow> py \<Rightarrow> world \<Rightarrow> py \<times> world" where
  "SemanticScholarAPI_get_related_works env arxiv_id w =
     (let (paper_data, w1) = SemanticScholarAPI_get_paper_details env arxiv_id w
      in case related_works_of paper_data of
           Inr works \<Rightarrow> (works, w1)
         | Inl e \<Rightarrow> (PList [], w1))"

section \<open>GroqAI\<close>

text \<open>
  \<^verbatim>\<open>get_groq_client\<close>: the client is stood for by its API key. The function is cached
  with \<^verbatim>\<open>st.cache_resource\<close>, which replays the error element of a cached call.
\<close>

definition get_groq_client :: "env \<Rightarrow> world \<Rightarrow> string option \<times> world" where
  "get_groq_client env w =
     (case GROQ_API_KEY env of
        None \<Rightarrow> (None, st_error ''GROQ_API_KEY environment variable not set!'' w)
      | Some api_key \<Rightarrow>
          (if api_key = [] then (None, st_error ''GROQ_API_KEY environment variable not set!'' w)
           else (Some api_key, w)))"

text \<open>
  The two lines every operation starts with, outside its \<^verbatim>\<open>try\<close>:
  \<^verbatim>\<open>abstracts = [paper["abstract"] for paper in papers]\<close> and
  \<^verbatim>\<open>combined_text = "\n\n".join(abstracts)\<close>.
\<close>

definition combined_text :: "py list \<Rightarrow> exn + string" where
  "combined_text papers =
     then_do (map_exn (\<lambda>paper. getitem paper ''abstract'') papers) (\<lambda>abstracts.
       py_join ''\<newline>\<newline>'' (PList abstracts))"

text \<open>One completion request: the oracle answers, and the call is recorded.\<close>

definition chat_completion :: "env \<Rightarrow> string \<Rightarrow> groq_request \<Rightarrow> world \<Rightarrow> groq_reply \<times> world" where
  "chat_completion env groq_client request w =
     (groq_create env (length (calls w)) request, record_call (Groq_call groq_client request) w)"

definition summarize_prompt :: "string \<Rightarrow> string" where
  "summarize_prompt joined =
     ''\<newline>'' @
     ''        Please provide a comprehensive summary of the following research papers. \<newline>'' @
     ''        Focus on the main findings, methodologies, and key insights:\<newline>'' @
     ''        \<newline>'' @
     ''        '' @
     joined @
     ''\<newline>'' @
     ''        \<newline>'' @
     ''        Provide a clear, structured summary highlighting the most important points.\<newline>'' @
     ''        ''"

definition explain_prompt :: "string \<Rightarrow> string" where
  "explain_prompt joined =
     ''\<newline>'' @
     ''        Explain the following research in simple terms that a 15-year-old would understand.\<newline>'' @
     ''        Use analogies and avoid technical jargon:\<newline>'' @
     ''        \<newline>'' @
     ''        '' @
     joined @
     ''\<newline>'' @
     ''        \<newline>'' @
     ''        Make it engaging and easy to understand.\<newline>'' @
     ''        ''"

definition keywords_prompt :: "string \<Rightarrow> string" where
  "keywords_prompt joined =
     ''\<newline>'' @
     ''        Extract the most important keywords and key terms from this research:\<newline>'' @
     ''        \<newline>'' @
     ''        '' @
     joined @
     ''\<newline>'' @
     ''        \<newline>'' @
     ''        Return only a list of 10-15 key terms, separated by commas.\<newline>'' @
     ''        ''"

definition trends_prompt :: "string \<Rightarrow> string" where
  "trends_prompt joined =
     ''\<newline>'' @
     ''        Analyze the following research papers and identify:\<newline>'' @
     ''        1. Current trends in this field\<newline>'' @
     ''        2. Emerging patterns\<newline>'' @
     ''        3. Common methodologies\<newline>'' @
     ''        4. Key themes\<newline>'' @
     ''        \<newline>'' @
     ''        Research abstracts:\<newline>'' @
     ''        '' @
     joined @
     ''\<newline>'' @
     ''        \<newline>'' @
     ''        Provide insights about the direction this field is heading.\<newline>'' @
     ''        ''"

definition challenges_prompt :: "string \<Rightarrow> string" where
  "challenges_prompt joined =
     ''\<newline>'' @
     ''        Based on the following research papers, identify:\<newline>'' @
     ''        1. Open challenges mentioned\<newline>'' @
     ''        2. Limitations of current approaches\<newline>'' @
     ''        3. Future research directions\<newline>'' @
     ''        4. Unresolved questions\<newline>'' @
     ''        \<newline>'' @
     ''        Research abstracts:\<newline>'' @
     ''        '' @
     joined @
     ''\<newline>'' @
     ''        \<newline>'' @
     ''        Focus on what problems still need to be solved.\<newline>'' @
     ''        ''"

definition GroqAI_summarize_papers :: "env \<Rightarrow> py list \<Rightarrow> world \<Rightarrow> (exn + string) \<times> world" where
  "GroqAI_summarize_papers env papers w =
     (case get_groq_client env w of
        (None, w1) \<Rightarrow> (Inr ''Error: Groq client not available'', w1)
      | (Some groq_client, w1) \<Rightarrow>
          (case combined_text papers of
             Inl e \<Rightarrow> (Inl e, w1)
           | Inr text \<Rightarrow>
               (case chat_completion env groq_client
                       \<lparr>model = ''llama-3.1-8b-instant'', prompt = summarize_prompt text,
                        temperature = 3 / 10\<rparr> w1 of
                  (Groq_content content, w2) \<Rightarrow> (Inr content, w2)
                | (Groq_raises msg, w2) \<Rightarrow> (Inr (''Error generating summary: '' @ msg), w2))))"

definition GroqAI_explain_like_15 :: "env \<Rightarrow> py list \<Rightarrow> world \<Rightarrow> (exn + string) \<times> world" where
  "GroqAI_explain_like_15 env papers w =
     (case get_groq_client env w of
        (None, w1) \<Rightarrow> (Inr ''Error: Groq client not available'', w1)
      | (Some groq_client, w1) \<Rightarrow>
          (case combined_text papers of
             Inl e \<Rightarrow> (Inl e, w1)
           | Inr text \<Rightarrow>
               (case chat_completion env groq_client
                       \<lparr>model = ''llama-3.1-8b-instant'', prompt = explain_prompt text,
                        temperature = 5 / 10\<rparr> w1 of
                  (Groq_content content, w2) \<Rightarrow> (Inr content, w2)
                | (Groq_raises msg, w2) \<Rightarrow> (Inr (''Error generating explanation: '' @ msg), w2))))"

definition GroqAI_extract_keywords :: "env \<Rightarrow> py list \<Rightarrow> world \<Rightarrow> (exn + string list) \<times> world" where
  "GroqAI_extract_keywords env papers w =
     (case get_groq_client env w of
        (None, w1) \<Rightarrow> (Inr [], w1)
      | (Some groq_client, w1) \<Rightarrow>
          (case combined_text papers of
             Inl e \<Rightarrow> (Inl e, w1)
           | Inr text \<Rightarrow>
               (case chat_completion env groq_client
                       \<lparr>model = ''llama-3.1-8b-instant'', prompt = keywords_prompt text,
                        temperature = 2 / 10\<rparr> w1 of
                  (Groq_content content, w2) \<Rightarrow>
                    (let keywords = split CHR '','' content
                     in (Inr (map strip (filter (\<lambda>kw. strip kw \<noteq> []) keywords)), w2))
                | (Groq_raises msg, w2) \<Rightarrow> (Inr [], w2))))"

definition GroqAI_analyze_trends :: "env \<Rightarrow> py list \<Rightarrow> world \<Rightarrow> (exn + string) \<times> world" where
  "GroqAI_analyze_trends env papers w =
     (case get_groq_client env w of
        (None, w1) \<Rightarrow> (Inr ''Error: Groq client not available'', w1)
      | (Some groq_client, w1) \<Rightarrow>
          (case combined_text papers of
             Inl e \<Rightarrow> (Inl e, w1)
           | Inr text \<Rightarrow>
               (case chat_completion env groq_client
                       \<lparr>model = ''llama-3.1-8b-instant'', prompt = trends_prompt text,
                        temperature = 4 / 10\<rparr> w1 of
                  (Groq_content content, w2) \<Rightarrow> (Inr content, w2)
                | (Groq_raises msg, w2) \<Rightarrow> (Inr (''Error analyzing trends: '' @ msg), w2))))"

definition GroqAI_identify_challenges :: "env \<Rightarrow> py list \<Rightarrow> world \<Rightarrow> (exn + string) \<times> world" where
  "GroqAI_identify_challenges env papers w =
     (case get_groq_client env w of
        (None, w1) \<Rightarrow> (Inr ''Error: Groq client not available'', w1)
      | (Some groq_client, w1) \<Rightarrow>
          (case combined_text papers of
             Inl e \<Rightarrow> (Inl e, w1)
           | Inr text \<Rightarrow>
               (case chat_completion env groq_client
                       \<lparr>model = ''llama-3.1-8b-instant'', prompt = challenges_prompt text,
                        temperature = 4 / 10\<rparr> w1 of
                  (Groq_content content, w2) \<Rightarrow> (Inr content, w2)
                | (Groq_raises msg, w2) \<Rightarrow> (Inr (''Error identifying challenges: '' @ msg), w2))))"

section \<open>ResearchAPI\<close>

text \<open>
  Lines 339 to 350 of \<^verbatim>\<open>ResearchAPI.search_papers\<close>: the citation counts built from the
  paper details. \<^verbatim>\<open>paper_details.get\<close> raises an \<^verbatim>\<open>AttributeError\<close> when the details
  are not a dictionary; nothing catches it here.
\<close>

definition citation_counts_of :: "py \<Rightarrow> exn + dict" where
  "citation_counts_of paper_details =
     (if truthy paper_details
      then then_do (get paper_details ''citationCount'' (PInt 0)) (\<lambda>citations.
           then_do (get paper_details ''referenceCount'' (PInt 0)) (\<lambda>references.
           Inr [(''citations'', citations),
                (''references'', references)]))
      else Inr [(''citations'', PInt 0),
                (''references'', PInt 0),
                (''status'', PStr ''Semantic Scholar unavailable'')])"

text \<open>
  Lines 328 to 350 of \<^verbatim>\<open>ResearchAPI.search_papers\<close>: the related works and the citation
  counts of the first paper. Both lookups are made before the citation counts are built.
  An exception goes to the \<^verbatim>\<open>except\<close> of \<^verbatim>\<open>search_papers\<close>.
\<close>

definition enrichment :: "env \<Rightarrow> py list \<Rightarrow> world \<Rightarrow> (exn + py \<times> dict) \<times> world" where
  "enrichment env papers w =
     (case papers of
        [] \<Rightarrow> (Inr (PList [], []), w)
      | first_paper # _ \<Rightarrow>
          (case getitem first_paper ''arxiv_id'' of
             Inl e \<Rightarrow> (Inl e, w)
           | Inr first_paper_id \<Rightarrow>
               (let (paper_details, w1) = SemanticScholarAPI_get_paper_details env first_paper_id w;
                    (related_works, w2) = SemanticScholarAPI_get_related_works env first_paper_id w1
                in case citation_counts_of paper_details of
                     Inl e \<Rightarrow> (Inl e, w2)
                   | Inr citation_counts \<Rightarrow> (Inr (related_works, citation_counts), w2))))"

text \<open>Lines 352 to 357: the five analysis calls, one after the other.\<close>

definition analysis ::
  "env \<Rightarrow> py list \<Rightarrow> world \<Rightarrow> (exn + string \<times> string \<times> string list \<times> string \<times> string) \<times> world"
where
  "analysis env papers w =
     (case GroqAI_summarize_papers env papers w of
        (Inl e, w1) \<Rightarrow> (Inl e, w1)
      | (Inr ai_summary, w1) \<Rightarrow>
     (case GroqAI_explain_like_15 env papers w1 of
        (Inl e, w2) \<Rightarrow> (Inl e, w2)
      | (Inr explain_like_15, w2) \<Rightarrow>
     (case GroqAI_extract_keywords env papers w2 of
        (Inl e, w3) \<Rightarrow> (Inl e, w3)
      | (Inr keywords, w3) \<Rightarrow>
     (case GroqAI_analyze_trends env papers w3 of
        (Inl e, w4) \<Rightarrow> (Inl e, w4)
      | (Inr trends, w4) \<Rightarrow>
     (case GroqAI_identify_challenges env papers w4 of
        (Inl e, w5) \<Rightarrow> (Inl e, w5)
      | (Inr open_challenges, w5) \<Rightarrow>
          (Inr (ai_summary, explain_like_15, keywords, trends, open_challenges), w5))))))"

definition ResearchAPI_search_papers :: "env \<Rightarrow> string \<Rightarrow> world \<Rightarrow> dict option \<times> world" where
  "ResearchAPI_search_papers env query w =
     (if query = [] then (None, st_error ''Query is required'' w)
      else
        (let (papers, w1) = ArxivAPI_search_papers env query 5 w
         in if papers = [] then (None, st_error ''No papers found for the given query'' w1)
            else
              (case enrichment env papers w1 of
                 (Inl e, w2) \<Rightarrow> (None, st_error_exn ''Error during search: '' e w2)
               | (Inr (related_works, citation_counts), w2) \<Rightarrow>
                   (case analysis env papers w2 of
                      (Inl e, w3) \<Rightarrow> (None, st_error_exn ''Error during search: '' e w3)
                    | (Inr (ai_summary, explain_like_15, keywords, trends, open_challenges), w3) \<Rightarrow>
                        (Some
                           [(''papers'', PList papers),
                            (''ai_summary'', PStr ai_summary),
                            (''explain_like_15'', PStr explain_like_15),
                            (''keywords'', PList (map PStr keywords)),
                            (''related_works'', related_works),
                            (''citation_counts'', PDict citation_counts),
                            (''trends'', PStr trends),
                            (''open_challenges'', PStr open_challenges)],
                         w3)))))"

text \<open>The text added for one paper in the loop of \<^verbatim>\<open>export_results\<close> (lines 385 to 397).\<close>

definition paper_section :: "(py \<Rightarrow> string) \<Rightarrow> nat \<Rightarrow> py \<Rightarrow> exn + string" where
  "paper_section rp i paper =
     then_do (getitem paper ''title'') (\<lambda>title.
     then_do (then_do (getitem paper ''authors'') (py_join '', '')) (\<lambda>authors.
     then_do (getitem paper ''published'') (\<lambda>published.
     then_do (getitem paper ''url'') (\<lambda>url.
     then_do (getitem paper ''abstract'') (\<lambda>abstract.
     Inr (''### '' @ str_nat i @ ''. '' @ fmt rp title @ ''\<newline>'' @
          ''\<newline>'' @
          ''**Authors:** '' @ authors @ ''\<newline>'' @
          ''**Published:** '' @ fmt rp published @ ''\<newline>'' @
          ''**URL:** '' @ fmt rp url @ ''\<newline>'' @
          ''\<newline>'' @
          ''**Abstract:**\<newline>'' @
          fmt rp abstract @ ''\<newline>'' @
          ''\<newline>'' @
          ''---\<newline>'' @
          ''\<newline>''))))))"

text \<open>\<^verbatim>\<open>for i, paper in enumerate(..., i)\<close>, the sections one after the other.\<close>

fun paper_sections :: "(py \<Rightarrow> string) \<Rightarrow> nat \<Rightarrow> py list \<Rightarrow> exn + string" where
  "paper_sections rp i [] = Inr []"
| "paper_sections rp i (paper # rest) =
     then_do (paper_section rp i paper) (\<lambda>s.
     then_do (paper_sections rp (Suc i) rest) (\<lambda>t. Inr (s @ t)))"

text \<open>One line of the related works (line 425).\<close>

definition work_line :: "(py \<Rightarrow> string) \<Rightarrow> py \<Rightarrow> exn + string" where
  "work_line rp work =
     then_do (get work ''title'' (PStr ''Unknown Title'')) (\<lambda>title.
       Inr (''- '' @ fmt rp title @ ''\<newline>''))"

text \<open>The \<^verbatim>\<open>try\<close> block of \<^verbatim>\<open>export_results\<close>.\<close>

definition export_document :: "(py \<Rightarrow> string) \<Rightarrow> string \<Rightarrow> dict \<Rightarrow> exn + dict" where
  "export_document rp query search_result =
     then_do (then_do (getitem (PDict search_result) ''papers'') len) (\<lambda>n.
     then_do (then_do (then_do (getitem (PDict search_result) ''papers'') iter)
                (paper_sections rp 1)) (\<lambda>sections.
     then_do (getitem (PDict search_result) ''ai_summary'') (\<lambda>ai_summary.
     then_do (getitem (PDict search_result) ''explain_like_15'') (\<lambda>explain_like_15.
     then_do (then_do (getitem (PDict search_result) ''keywords'') (py_join '', '')) (\<lambda>keywords.
     then_do (getitem (PDict search_result) ''trends'') (\<lambda>trends.
     then_do (getitem (PDict search_result) ''open_challenges'') (\<lambda>open_challenges.
     then_do (then_do (then_do (then_do (getitem (PDict search_result) ''related_works'')
                (slice_to 5)) iter) (map_exn (work_line rp))) (\<lambda>work_lines.
     Inr [(''content'', PStr (
            ''# Research Summary: '' @ query @ ''\<newline>'' @
            ''\<newline>'' @
            ''## Papers Found ('' @ str_nat n @ '')\<newline>'' @
            ''\<newline>'' @
            sections @
            ''\<newline>'' @
            ''## AI Summary\<newline>'' @
            ''\<newline>'' @
            fmt rp ai_summary @ ''\<newline>'' @
            ''\<newline>'' @
            ''## Explain Like I'm 15\<newline>'' @
            ''\<newline>'' @
            fmt rp explain_like_15 @ ''\<newline>'' @
            ''\<newline>'' @
            ''## Keywords\<newline>'' @
            ''\<newline>'' @
            keywords @ ''\<newline>'' @
            ''\<newline>'' @
            ''## Trends & Insights\<newline>'' @
            ''\<newline>'' @
            fmt rp trends @ ''\<newline>'' @
            ''\<newline>'' @
            ''## Open Challenges\<newline>'' @
            ''\<newline>'' @
            fmt rp open_challenges @ ''\<newline>'' @
            ''\<newline>'' @
            ''## Related Works\<newline>'' @
            ''\<newline>'' @
            concat work_lines)),
          (''filename'', PStr (
            ''research_summary_'' @ replace CHR '' '' CHR ''_'' query @ ''.md''))]))))))))"

definition ResearchAPI_export_results ::
  "env \<Rightarrow> string \<Rightarrow> dict \<Rightarrow> world \<Rightarrow> dict option \<times> world"
where
  "ResearchAPI_export_results env query search_result w =
     (case export_document (repr env) query search_result of
        Inr result \<Rightarrow> (Some result, w)
      | Inl e \<Rightarrow> (None, st_error_exn ''Error generating export: '' e w))"

section \<open>What the page shows of the citation counts\<close>

text \<open>
  \<^verbatim>\<open>st.metric(label, value)\<close> takes an \<^verbatim>\<open>int\<close>, a \<^verbatim>\<open>float\<close>, a \<^verbatim>\<open>str\<close> or
  \<^verbatim>\<open>None\<close> as its value and raises a \<^verbatim>\<open>TypeError\<close> for a list or a dictionary.
\<close>

definition metric_accepts :: "py \<Rightarrow> bool" where
  "metric_accepts v = (case v of PList xs \<Rightarrow> False | PDict d \<Rightarrow> False | _ \<Rightarrow> True)"

definition st_metric :: "string \<Rightarrow> py \<Rightarrow> exn + ui" where
  "st_metric label v = (if metric_accepts v then Inr (St_metric label v) else Inl TypeError)"

text \<open>
  The block \<^verbatim>\<open># Citation Information\<close> of \<^verbatim>\<open>display_insights_panel\<close> (lines 477
  to 492): the heading, the two \<^verbatim>\<open>st.metric\<close> elements and the \<^verbatim>\<open>st.info\<close> note,
  in the order of the source. The function has no \<^verbatim>\<open>try\<close>: an exception leaves it,
  and the result is then the exception.
\<close>

definition display_insights_panel_citations :: "dict \<Rightarrow> exn + ui list" where
  "display_insights_panel_citations search_result =
     (let citation_counts = dict_get search_result ''citation_counts'' (PDict [])
      in if truthy citation_counts
         then
           then_do (get citation_counts ''citations'' (PInt 0)) (\<lambda>citations.
           then_do (st_metric ''Citations'' citations) (\<lambda>citations_metric.
           then_do (get citation_counts ''references'' (PInt 0)) (\<lambda>references.
           then_do (st_metric ''References'' references) (\<lambda>references_metric.
           then_do (get citation_counts ''status'' (PStr [])) (\<lambda>status.
           Inr ([Citation_heading, citations_metric, references_metric] @
                (if status = PStr ''Semantic Scholar unavailable''
                 then [Unavailable_note] else [])))))))
         else Inr [])"

text \<open>\<^verbatim>\<open>isinstance(v, (int, float))\<close>; a \<^verbatim>\<open>bool\<close> is an \<^verbatim>\<open>int\<close>.\<close>

definition is_number :: "py \<Rightarrow> bool" where
  "is_number v = (case v of PInt i \<Rightarrow> True | PBool b \<Rightarrow> True | _ \<Rightarrow> False)"

text \<open>\<^verbatim>\<open>isinstance(v, (int, float)) and v > 0\<close>\<close>

definition positive_number :: "py \<Rightarrow> bool" where
  "positive_number v = (case v of PInt i \<Rightarrow> 0 < i | PBool b \<Rightarrow> b | _ \<Rightarrow> False)"

text \<open>
  \<^verbatim>\<open>create_citation_visualization\<close>: a bar chart of the two counts, or the note that no
  visualization is available.
\<close>

definition create_citation_visualization :: "dict \<Rightarrow> exn + ui list" where
  "create_citation_visualization search_result =
     (let citation_counts = dict_get search_result ''citation_counts'' (PDict [])
      in then_do (get citation_counts ''citations'' (PInt 0)) (\<lambda>citations.
         then_do (get citation_counts ''references'' (PInt 0)) (\<lambda>references.
         if positive_number citations \<or> positive_number references
         then Inr [Citation_chart (if is_number citations then citations else PInt 0)
                                  (if is_number references then references else PInt 0)]
         else Inr [No_visualization_note])))"

section \<open>Example inputs\<close>

definition example_entry :: entry where
  "example_entry =
     \<lparr>title_el = Element (Some '' Deep Nets ''),
      author_name_els = [Element (Some ''Ada''), Element (Some ''Bob'')],
      summary_el = Element (Some ''We study nets. ''),
      published_el = Element (Some ''2024-01-02T03:04:05Z''),
      id_el = Element (Some ''http://arxiv.org/abs/2401.00001v1'')\<rparr>"

definition entry_without_title :: entry where
  "entry_without_title = example_entry\<lparr>title_el := Missing\<rparr>"

text \<open>
  An environment with the API key set: arXiv answers with one entry, Semantic Scholar
  with 404, the summary request fails and the keyword request is answered with the
  text of the specification's example.
\<close>

definition example_env :: env where
  "example_env =
     \<lparr>GROQ_API_KEY = Some ''key'',
      arxiv_get = (\<lambda>t url params. Arxiv_response 200 [] (Feed [example_entry])),
      scholar_get = (\<lambda>t url. Scholar_response 404 None),
      groq_create = (\<lambda>t request.
        if temperature request = 2 / 10 then Groq_content ''  ml,  AI ,, robotics''
        else if temperature request = 3 / 10 then Groq_raises ''timeout''
        else Groq_content ''text''),
      repr = (\<lambda>v. ''?'')\<rparr>"

definition example_world :: world where
  "example_world = \<lparr>calls = [], shown = []\<rparr>"

definition example_paper :: py where
  "example_paper =
     PDict
       [(''title'', PStr ''Deep Nets''),
        (''authors'', PList [PStr ''Ada'', PStr ''Bob'']),
        (''abstract'', PStr ''We study nets.''),
        (''published'', PStr ''2024-01-02''),
        (''url'', PStr ''http://arxiv.org/abs/2401.00001v1''),
        (''arxiv_id'', PStr ''2401.00001v1'')]"


text \<open>The second of two entries has no title element.\<close>

definition broken_entry_env :: env where
  "broken_entry_env =
     example_env\<lparr>arxiv_get :=
       (\<lambda>t url params. Arxiv_response 200 [] (Feed [example_entry, entry_without_title]))\<rparr>"

text \<open>arXiv answers with an empty feed.\<close>

definition no_papers_env :: env where
  "no_papers_env = example_env\<lparr>arxiv_get := (\<lambda>t url params. Arxiv_response 200 [] (Feed []))\<rparr>"

text \<open>Semantic Scholar knows the paper: nobody cites it and it cites nothing.\<close>

definition zero_citations_env :: env where
  "zero_citations_env =
     example_env\<lparr>scholar_get := (\<lambda>t url. Scholar_response 200
       (Some (PDict [(''paperId'', PStr ''abc''), (''citationCount'', PInt 0),
                     (''referenceCount'', PInt 0)])))\<rparr>"


text \<open>What \<^verbatim>\<open>search_papers\<close> returns in the example environment.\<close>

definition example_result :: dict where
  "example_result =
     [(''papers'', PList [example_paper]),
      (''ai_summary'', PStr ''Error generating summary: timeout''),
      (''explain_like_15'', PStr ''text''),
      (''keywords'', PList [PStr ''ml'', PStr ''AI'', PStr ''robotics'']),
      (''related_works'', PList []),
      (''citation_counts'',
         PDict [(''citations'', PInt 0), (''references'', PInt 0),
                (''status'', PStr ''Semantic Scholar unavailable'')]),
      (''trends'', PStr ''text''),
      (''open_challenges'', PStr ''text'')]"

text \<open>
  The same bundle with the paper of an entry that has one author, whose name element
  has no text: \<^verbatim>\<open>name.text\<close> is \<^verbatim>\<open>None\<close>.
\<close>

definition nameless_author_result :: dict where
  "nameless_author_result =
     [(''papers'', PList
         [PDict
            [(''title'', PStr ''Deep Nets''),
             (''authors'', PList [PNone]),
             (''abstract'', PStr ''We study nets.''),
             (''published'', PStr ''2024-01-02''),
             (''url'', PStr ''http://arxiv.org/abs/2401.00001v1''),
             (''arxiv_id'', PStr ''2401.00001v1'')]]),
      (''ai_summary'', PStr ''Error generating summary: timeout''),
      (''explain_like_15'', PStr ''text''),
      (''keywords'', PList [PStr ''ml'', PStr ''AI'', PStr ''robotics'']),
      (''related_works'', PList []),
      (''citation_counts'',
         PDict [(''citations'', PInt 0), (''references'', PInt 0),
                (''status'', PStr ''Semantic Scholar unavailable'')]),
      (''trends'', PStr ''text''),
      (''open_challenges'', PStr ''text'')]"

text \<open>What it returns when Semantic Scholar knows the paper and counts no citations.\<close>

definition zero_citations_result :: dict where
  "zero_citations_result =
     [(''papers'', PList [example_paper]),
      (''ai_summary'', PStr ''Error generating summary: timeout''),
      (''explain_like_15'', PStr ''text''),
      (''keywords'', PList [PStr ''ml'', PStr ''AI'', PStr ''robotics'']),
      (''related_works'', PList []),
      (''citation_counts'', PDict [(''citations'', PInt 0), (''references'', PInt 0)]),
      (''trends'', PStr ''text''),
      (''open_challenges'', PStr ''text'')]"

section \<open>Conditions on answers and bundles\<close>

text \<open>A lookup that failed: an exception, a status other than 200, or no JSON body.\<close>

definition lookup_failed :: "scholar_response \<Rightarrow> bool" where
  "lookup_failed r =
     (case r of
        Scholar_raises \<Rightarrow> True
      | Scholar_response status_code json \<Rightarrow> status_code \<noteq> 200 \<or> json = None)"

text \<open>
  An answer with status 200 whose body is a JSON value that is truthy and not an object:
  a non-empty array or string, a number other than 0, \<^verbatim>\<open>true\<close>.
\<close>

definition non_object_body :: "scholar_response \<Rightarrow> bool" where
  "non_object_body r =
     (case r of
        Scholar_raises \<Rightarrow> False
      | Scholar_response status_code json \<Rightarrow>
          (case json of
             None \<Rightarrow> False
           | Some data \<Rightarrow>
               status_code = 200 \<and> truthy data \<and> (case data of PDict d \<Rightarrow> False | _ \<Rightarrow> True)))"

text \<open>
  The values \<^verbatim>\<open>sep.join\<close> accepts: a string, a list of strings, a dictionary (its keys
  are strings).
\<close>

definition is_str :: "py \<Rightarrow> bool" where
  "is_str v = (case v of PStr s \<Rightarrow> True | _ \<Rightarrow> False)"

definition is_dict :: "py \<Rightarrow> bool" where
  "is_dict v = (case v of PDict d \<Rightarrow> True | _ \<Rightarrow> False)"

definition joinable :: "py \<Rightarrow> bool" where
  "joinable v =
     (case v of
        PStr s \<Rightarrow> True
      | PList xs \<Rightarrow> list_all is_str xs
      | PDict d \<Rightarrow> True
      | _ \<Rightarrow> False)"

text \<open>
  A paper that \<^verbatim>\<open>export_results\<close> can write: a dictionary with the keys title, authors,
  published, url and abstract whose authors can be joined.
\<close>

definition exportable_paper :: "py \<Rightarrow> bool" where
  "exportable_paper paper =
     (case paper of
        PDict d \<Rightarrow>
          map_of d ''title'' \<noteq> None
        \<and> (case map_of d ''authors'' of None \<Rightarrow> False | Some authors \<Rightarrow> joinable authors)
        \<and> map_of d ''published'' \<noteq> None
        \<and> map_of d ''url'' \<noteq> None
        \<and> map_of d ''abstract'' \<noteq> None
      | _ \<Rightarrow> False)"

text \<open>
  A bundle that \<^verbatim>\<open>export_results\<close> can write: the seven keys it reads are there, the
  papers can be gone through and each can be written, the keywords can be joined, and
  the first five related works can be taken and are dictionaries.
\<close>

definition exportable :: "dict \<Rightarrow> bool" where
  "exportable search_result =
     ((case map_of search_result ''papers'' of
         None \<Rightarrow> False
       | Some papers \<Rightarrow>
           (case iter papers of
              Inl e \<Rightarrow> False
            | Inr items \<Rightarrow> list_all exportable_paper items))
    \<and> map_of search_result ''ai_summary'' \<noteq> None
    \<and> map_of search_result ''explain_like_15'' \<noteq> None
    \<and> (case map_of search_result ''keywords'' of
         None \<Rightarrow> False
       | Some keywords \<Rightarrow> joinable keywords)
    \<and> map_of search_result ''trends'' \<noteq> None
    \<and> map_of search_result ''open_challenges'' \<noteq> None
    \<and> (case map_of search_result ''related_works'' of
         None \<Rightarrow> False
       | Some related_works \<Rightarrow>
           (case then_do (slice_to 5 related_works) iter of
              Inl e \<Rightarrow> False
            | Inr works \<Rightarrow> list_all is_dict works)))"

section \<open>Basic facts\<close>

lemma then_do_Inr [simp]: "then_do (Inr x) f = f x"
  by (simp add: then_do_def)

lemma then_do_Inl [simp]: "then_do (Inl e) f = Inl e"
  by (simp add: then_do_def)

lemma then_do_eq_Inr: "then_do r f = Inr y \<longleftrightarrow> (\<exists>x. r = Inr x \<and> f x = Inr y)"
  by (cases r) simp_all

lemma split_not_Nil [simp]: "split sep s \<noteq> []"
  by (induction s) (auto split: list.splits)

lemma join_split: "join [sep] (split sep s) = s"
proof (induction s)
  case Nil
  show ?case by simp
next
  case (Cons c cs)
  obtain p ps where sp: "split sep cs = p # ps"
    by (cases "split sep cs") simp_all
  with Cons show ?case
    by (cases ps) auto
qed

lemma split_no_sep: "p \<in> set (split sep s) \<Longrightarrow> sep \<notin> set p"
proof (induction s arbitrary: p)
  case Nil
  then show ?case by simp
next
  case (Cons c cs)
  then show ?case
    by (cases "split sep cs") (auto split: if_splits)
qed

lemma strip_decomposition:
  "\<exists>a b. s = a @ strip s @ b \<and> (\<forall>c\<in>set a. isspace c) \<and> (\<forall>c\<in>set b. isspace c)"
proof -
  let ?t = "dropWhile isspace s"
  have 1: "s = takeWhile isspace s @ ?t" by simp
  have "rev (rev ?t) = rev (takeWhile isspace (rev ?t) @ dropWhile isspace (rev ?t))"
    by (simp only: takeWhile_dropWhile_id)
  then have "?t = rev (dropWhile isspace (rev ?t)) @ rev (takeWhile isspace (rev ?t))"
    by (simp only: rev_rev_ident rev_append)
  then have "s = takeWhile isspace s @ strip s @ rev (takeWhile isspace (rev ?t))"
    using 1 by (simp add: strip_def)
  moreover have "\<forall>c\<in>set (takeWhile isspace s). isspace c"
    by (auto dest: set_takeWhileD)
  moreover have "\<forall>c\<in>set (rev (takeWhile isspace (rev ?t))). isspace c"
    by (auto dest: set_takeWhileD)
  ultimately show ?thesis by blast
qed

lemma strip_trimmed:
  assumes ne: "strip s \<noteq> []"
  shows "\<not> isspace (hd (strip s)) \<and> \<not> isspace (last (strip s))"
proof -
  let ?t = "dropWhile isspace s"
  let ?u = "dropWhile isspace (rev ?t)"
  from ne have u: "?u \<noteq> []" by (simp add: strip_def)
  then have "\<not> isspace (hd ?u)" by (metis hd_dropWhile)
  then have l: "\<not> isspace (last (strip s))" using u by (simp add: strip_def last_rev)
  from u have t: "?t \<noteq> []"
    by (metis dropWhile.simps(1) rev.simps(1))
  then have ht: "\<not> isspace (hd ?t)" by (metis hd_dropWhile)
  have "hd (strip s) = last ?u" using u by (simp add: strip_def hd_rev)
  also have "\<dots> = last (rev ?t)"
    using u by (metis takeWhile_dropWhile_id last_appendR)
  also have "\<dots> = hd ?t" using t by (simp add: last_rev)
  finally show ?thesis using ht l by simp
qed

lemma strip_then_drop: 
  "map strip (filter (\<lambda>kw. strip kw \<noteq> []) ps) = filter (\<lambda>k. k \<noteq> []) (map strip ps)"
  by (induction ps) auto

lemma get_groq_client_key:
  "GROQ_API_KEY env = Some key \<Longrightarrow> key \<noteq> [] \<Longrightarrow> get_groq_client env w = (Some key, w)"
  by (simp add: get_groq_client_def)

lemma example_papers:
  "ArxivAPI_search_papers example_env query 5 example_world =
     ([example_paper],
      \<lparr>calls = [Arxiv_call arxiv_base_url (arxiv_params query 5)], shown = []\<rparr>)"
  by (simp add: ArxivAPI_search_papers_def example_env_def example_world_def arxiv_papers_def
      raise_for_status_def paper_of_entry_def example_entry_def text_strip_def text_of_def
      author_name_def strip_def isspace_def record_call_def example_paper_def)

lemma example_combined_text: "combined_text [example_paper] = Inr ''We study nets.''"
  by (simp add: combined_text_def example_paper_def getitem_def py_join_def iter_def as_str_def)

lemma example_entry_paper: "paper_of_entry example_entry = Inr example_paper"
  by (simp add: paper_of_entry_def example_entry_def text_strip_def text_of_def
      author_name_def strip_def isspace_def example_paper_def)

section \<open>Facts about the components\<close>

lemma map_exn_Inr_iff:
  "map_exn f xs = Inr ys \<longleftrightarrow> list_all2 (\<lambda>x y. f x = Inr y) xs ys"
proof (induction xs arbitrary: ys)
  case Nil
  show ?case by auto
next
  case (Cons x xs)
  show ?case
  proof (cases "f x")
    case (Inl e)
    then show ?thesis by (auto simp: list_all2_Cons1)
  next
    case (Inr y)
    then show ?thesis
      using Cons by (cases "map_exn f xs") (auto simp: list_all2_Cons1)
  qed
qed

lemma map_exn_Inr_length: "map_exn f xs = Inr ys \<Longrightarrow> length ys = length xs"
  by (simp add: map_exn_Inr_iff list_all2_lengthD)

lemma map_exn_Inr_nth:
  "map_exn f xs = Inr ys \<Longrightarrow> i < length xs \<Longrightarrow> f (xs ! i) = Inr (ys ! i)"
  by (auto simp: map_exn_Inr_iff list_all2_conv_all_nth)

lemma map_exn_Inl:
  "x \<in> set xs \<Longrightarrow> f x = Inl e \<Longrightarrow> \<exists>e'. map_exn f xs = Inl e'"
proof (induction xs)
  case Nil
  then show ?case by simp
next
  case (Cons a xs)
  then show ?case
    by (cases "f a"; cases "map_exn f xs") auto
qed

lemma map_exn_all_Inr:
  "(\<And>x. x \<in> set xs \<Longrightarrow> f x = Inr (g x)) \<Longrightarrow> map_exn f xs = Inr (map g xs)"
  by (induction xs) auto

lemma paper_of_entry_shape:
  assumes "paper_of_entry e = Inr p"
  shows "\<exists>title authors abstract published url arxiv_id.
           p = PDict [(''title'', PStr title), (''authors'', PList authors),
                      (''abstract'', PStr abstract), (''published'', PStr published),
                      (''url'', PStr url), (''arxiv_id'', PStr arxiv_id)]"
  using assms
  by (auto simp: paper_of_entry_def then_do_eq_Inr text_of_def split: node.splits option.splits)

lemma paper_getitem:
  assumes "paper_of_entry e = Inr p"
  shows "\<exists>a. getitem p ''abstract'' = Inr (PStr a)"
    and "\<exists>i. getitem p ''arxiv_id'' = Inr (PStr i)"
  using paper_of_entry_shape [OF assms] by (auto simp: getitem_def)

lemma py_join_strings: "py_join sep (PList (map PStr ss)) = Inr (join sep ss)"
proof -
  have "map_exn as_str (map PStr ss) = Inr ss"
    by (induction ss) (auto simp: as_str_def)
  then show ?thesis by (simp add: py_join_def iter_def)
qed

lemma combined_text_papers:
  assumes "map_exn paper_of_entry es = Inr ps"
  shows "\<exists>text. combined_text ps = Inr text"
proof -
  have all: "list_all2 (\<lambda>e p. paper_of_entry e = Inr p) es ps"
    using assms by (simp add: map_exn_Inr_iff)
  have "\<forall>p\<in>set ps. \<exists>a. getitem p ''abstract'' = Inr (PStr a)"
  proof
    fix p assume "p \<in> set ps"
    then obtain e where "paper_of_entry e = Inr p"
      using all by (auto simp: in_set_conv_nth list_all2_conv_all_nth)
    then show "\<exists>a. getitem p ''abstract'' = Inr (PStr a)" by (rule paper_getitem)
  qed
  then obtain g where g: "\<And>p. p \<in> set ps \<Longrightarrow> getitem p ''abstract'' = Inr (PStr (g p))"
    by metis
  have "map_exn (\<lambda>paper. getitem paper ''abstract'') ps = Inr (map (\<lambda>p. PStr (g p)) ps)"
    using g by (intro map_exn_all_Inr) simp
  then have "combined_text ps = py_join ''\<newline>\<newline>'' (PList (map PStr (map g ps)))"
    by (simp add: combined_text_def comp_def)
  then show ?thesis by (simp only: py_join_strings) blast
qed

lemma arxiv_calls:
  "calls (snd (ArxivAPI_search_papers env query n w)) =
     calls w @ [Arxiv_call arxiv_base_url (arxiv_params query n)]"
  by (simp add: ArxivAPI_search_papers_def Let_def record_call_def st_error_exn_def
      split: sum.splits)

lemma arxiv_nonempty:
  assumes "fst (ArxivAPI_search_papers env query n w) = papers" and "papers \<noteq> []"
  shows "\<exists>status msg entries.
           arxiv_get env (length (calls w)) arxiv_base_url (arxiv_params query n) =
             Arxiv_response status msg (Feed entries)
         \<and> \<not> (400 \<le> status \<and> status < 600)
         \<and> map_exn paper_of_entry entries = Inr papers"
  using assms
  by (auto simp: ArxivAPI_search_papers_def Let_def arxiv_papers_def raise_for_status_def
      split: sum.splits arxiv_response.splits xml.splits if_splits)

lemma details_calls:
  "calls (snd (SemanticScholarAPI_get_paper_details env arxiv_id w)) =
     calls w @ [Scholar_call
       (''https://api.semanticscholar.org/graph/v1/paper/arXiv:'' @ fmt (repr env) arxiv_id)
       scholar_headers 10]"
  by (simp add: SemanticScholarAPI_get_paper_details_def Let_def record_call_def
      split: scholar_response.splits option.splits)

lemma details_failed:
  assumes "lookup_failed (scholar_get env (length (calls w))
     (''https://api.semanticscholar.org/graph/v1/paper/arXiv:'' @ fmt (repr env) arxiv_id))"
  shows "fst (SemanticScholarAPI_get_paper_details env arxiv_id w) = PDict []"
  using assms
  by (auto simp: SemanticScholarAPI_get_paper_details_def Let_def lookup_failed_def
      split: scholar_response.splits option.splits)

lemma details_found:
  assumes "scholar_get env (length (calls w))
     (''https://api.semanticscholar.org/graph/v1/paper/arXiv:'' @ fmt (repr env) arxiv_id) =
       Scholar_response 200 (Some data)"
  shows "fst (SemanticScholarAPI_get_paper_details env arxiv_id w) = data"
  using assms
  by (simp add: SemanticScholarAPI_get_paper_details_def Let_def)

lemma related_calls:
  "calls (snd (SemanticScholarAPI_get_related_works env arxiv_id w)) =
     calls w @ [Scholar_call
       (''https://api.semanticscholar.org/graph/v1/paper/arXiv:'' @ fmt (repr env) arxiv_id)
       scholar_headers 10]"
  using details_calls [of env arxiv_id w]
  by (simp add: SemanticScholarAPI_get_related_works_def Let_def split_beta
      split: sum.splits)

lemma details_non_object:
  "non_object_body (scholar_get env (length (calls w))
     (''https://api.semanticscholar.org/graph/v1/paper/arXiv:'' @ fmt (repr env) arxiv_id)) \<longleftrightarrow>
   truthy (fst (SemanticScholarAPI_get_paper_details env arxiv_id w))
   \<and> \<not> is_dict (fst (SemanticScholarAPI_get_paper_details env arxiv_id w))"
  by (auto simp: SemanticScholarAPI_get_paper_details_def Let_def non_object_body_def
      truthy_def is_dict_def split: scholar_response.splits option.splits py.splits)

lemma related_works_of_empty [simp]: "related_works_of (PDict []) = Inr (PList [])"
  by (simp add: related_works_of_def truthy_def)

lemma related_failed:
  assumes "lookup_failed (scholar_get env (length (calls w))
     (''https://api.semanticscholar.org/graph/v1/paper/arXiv:'' @ fmt (repr env) arxiv_id))"
  shows "fst (SemanticScholarAPI_get_related_works env arxiv_id w) = PList []"
  using details_failed [OF assms]
  by (simp add: SemanticScholarAPI_get_related_works_def Let_def split_beta)

lemma citation_counts_of_dict:
  "citation_counts_of (PDict d) =
     Inr (if d \<noteq> []
          then [(''citations'', dict_get d ''citationCount'' (PInt 0)),
                (''references'', dict_get d ''referenceCount'' (PInt 0))]
          else [(''citations'', PInt 0), (''references'', PInt 0),
                (''status'', PStr ''Semantic Scholar unavailable'')])"
  by (simp add: citation_counts_of_def truthy_def get_def dict_get_def split: option.splits)

lemma citation_counts_of_falsy:
  "\<not> truthy v \<Longrightarrow>
   citation_counts_of v =
     Inr [(''citations'', PInt 0), (''references'', PInt 0),
          (''status'', PStr ''Semantic Scholar unavailable'')]"
  by (simp add: citation_counts_of_def)


lemma citation_counts_of_returns:
  "\<not> (truthy v \<and> \<not> is_dict v) \<Longrightarrow> \<exists>citation_counts. citation_counts_of v = Inr citation_counts"
  by (cases v) (auto simp: citation_counts_of_dict citation_counts_of_falsy is_dict_def)

lemma enrichment_first:
  assumes "getitem p ''arxiv_id'' = Inr first_paper_id"
  shows "enrichment env (p # ps) w =
     (case citation_counts_of
             (fst (SemanticScholarAPI_get_paper_details env first_paper_id w)) of
        Inl e \<Rightarrow> Inl e
      | Inr citation_counts \<Rightarrow>
          Inr (fst (SemanticScholarAPI_get_related_works env first_paper_id
                     (snd (SemanticScholarAPI_get_paper_details env first_paper_id w))),
               citation_counts),
      snd (SemanticScholarAPI_get_related_works env first_paper_id
            (snd (SemanticScholarAPI_get_paper_details env first_paper_id w))))"
  using assms by (simp add: enrichment_def Let_def split_beta split: sum.splits)

lemma enrichment_returns:
  assumes "getitem p ''arxiv_id'' = Inr first_paper_id"
    and "\<not> non_object_body (scholar_get env (length (calls w))
           (''https://api.semanticscholar.org/graph/v1/paper/arXiv:'' @
              fmt (repr env) first_paper_id))"
  shows "\<exists>related_works citation_counts.
           fst (enrichment env (p # ps) w) = Inr (related_works, citation_counts)
         \<and> citation_counts_of
             (fst (SemanticScholarAPI_get_paper_details env first_paper_id w)) =
               Inr citation_counts"
proof -
  from assms(2) have "\<exists>citation_counts. citation_counts_of
             (fst (SemanticScholarAPI_get_paper_details env first_paper_id w)) =
               Inr citation_counts"
    unfolding details_non_object by (rule citation_counts_of_returns)
  then obtain citation_counts
    where "citation_counts_of
             (fst (SemanticScholarAPI_get_paper_details env first_paper_id w)) =
               Inr citation_counts"
    by (elim exE)
  then show ?thesis
    by (simp add: enrichment_first [OF assms(1)])
qed


lemma enrichment_calls:
  assumes "getitem p ''arxiv_id'' = Inr first_paper_id"
  shows "calls (snd (enrichment env (p # ps) w)) =
     calls w @ replicate 2 (Scholar_call
       (''https://api.semanticscholar.org/graph/v1/paper/arXiv:'' @ fmt (repr env) first_paper_id)
       scholar_headers 10)"
  by (simp add: enrichment_first [OF assms] related_calls details_calls numeral_2_eq_2
      split: sum.splits)

lemma get_groq_client_none:
  "GROQ_API_KEY env = None \<or> GROQ_API_KEY env = Some [] \<Longrightarrow>
     get_groq_client env w = (None, st_error ''GROQ_API_KEY environment variable not set!'' w)"
  by (auto simp: get_groq_client_def)

lemma get_groq_client_cases:
  obtains (available) key where "GROQ_API_KEY env = Some key" "key \<noteq> []"
  | (missing) "GROQ_API_KEY env = None \<or> GROQ_API_KEY env = Some []"
  by (cases "GROQ_API_KEY env") auto

lemma summarize_papers_with_key:
  assumes "GROQ_API_KEY env = Some key" and "key \<noteq> []"
    and "combined_text papers = Inr text"
  shows "GroqAI_summarize_papers env papers w =
     (Inr (case groq_create env (length (calls w))
                  \<lparr>model = ''llama-3.1-8b-instant'', prompt = summarize_prompt text,
                   temperature = 3 / 10\<rparr> of
             Groq_content content \<Rightarrow> content
           | Groq_raises msg \<Rightarrow> ''Error generating summary: '' @ msg),
      record_call (Groq_call key
        \<lparr>model = ''llama-3.1-8b-instant'', prompt = summarize_prompt text,
         temperature = 3 / 10\<rparr>) w)"
  using assms
  by (simp add: GroqAI_summarize_papers_def get_groq_client_key chat_completion_def
      split: groq_reply.splits)

lemma summarize_papers_without_key:
  assumes "GROQ_API_KEY env = None \<or> GROQ_API_KEY env = Some []"
  shows "GroqAI_summarize_papers env papers w =
     (Inr ''Error: Groq client not available'',
      st_error ''GROQ_API_KEY environment variable not set!'' w)"
  by (simp add: GroqAI_summarize_papers_def get_groq_client_none [OF assms])

lemma explain_like_15_with_key:
  assumes "GROQ_API_KEY env = Some key" and "key \<noteq> []"
    and "combined_text papers = Inr text"
  shows "GroqAI_explain_like_15 env papers w =
     (Inr (case groq_create env (length (calls w))
                  \<lparr>model = ''llama-3.1-8b-instant'', prompt = explain_prompt text,
                   temperature = 5 / 10\<rparr> of
             Groq_content content \<Rightarrow> content
           | Groq_raises msg \<Rightarrow> ''Error generating explanation: '' @ msg),
      record_call (Groq_call key
        \<lparr>model = ''llama-3.1-8b-instant'', prompt = explain_prompt text,
         temperature = 5 / 10\<rparr>) w)"
  using assms
  by (simp add: GroqAI_explain_like_15_def get_groq_client_key chat_completion_def
      split: groq_reply.splits)

lemma explain_like_15_without_key:
  assumes "GROQ_API_KEY env = None \<or> GROQ_API_KEY env = Some []"
  shows "GroqAI_explain_like_15 env papers w =
     (Inr ''Error: Groq client not available'',
      st_error ''GROQ_API_KEY environment variable not set!'' w)"
  by (simp add: GroqAI_explain_like_15_def get_groq_client_none [OF assms])

lemma analyze_trends_with_key:
  assumes "GROQ_API_KEY env = Some key" and "key \<noteq> []"
    and "combined_text papers = Inr text"
  shows "GroqAI_analyze_trends env papers w =
     (Inr (case groq_create env (length (calls w))
                  \<lparr>model = ''llama-3.1-8b-instant'', prompt = trends_prompt text,
                   temperature = 4 / 10\<rparr> of
             Groq_content content \<Rightarrow> content
           | Groq_raises msg \<Rightarrow> ''Error analyzing trends: '' @ msg),
      record_call (Groq_call key
        \<lparr>model = ''llama-3.1-8b-instant'', prompt = trends_prompt text,
         temperature = 4 / 10\<rparr>) w)"
  using assms
  by (simp add: GroqAI_analyze_trends_def get_groq_client_key chat_completion_def
      split: groq_reply.splits)

lemma analyze_trends_without_key:
  assumes "GROQ_API_KEY env = None \<or> GROQ_API_KEY env = Some []"
  shows "GroqAI_analyze_trends env papers w =
     (Inr ''Error: Groq client not available'',
      st_error ''GROQ_API_KEY environment variable not set!'' w)"
  by (simp add: GroqAI_analyze_trends_def get_groq_client_none [OF assms])

lemma identify_challenges_with_key:
  assumes "GROQ_API_KEY env = Some key" and "key \<noteq> []"
    and "combined_text papers = Inr text"
  shows "GroqAI_identify_challenges env papers w =
     (Inr (case groq_create env (length (calls w))
                  \<lparr>model = ''llama-3.1-8b-instant'', prompt = challenges_prompt text,
                   temperature = 4 / 10\<rparr> of
             Groq_content content \<Rightarrow> content
           | Groq_raises msg \<Rightarrow> ''Error identifying challenges: '' @ msg),
      record_call (Groq_call key
        \<lparr>model = ''llama-3.1-8b-instant'', prompt = challenges_prompt text,
         temperature = 4 / 10\<rparr>) w)"
  using assms
  by (simp add: GroqAI_identify_challenges_def get_groq_client_key chat_completion_def
      split: groq_reply.splits)

lemma identify_challenges_without_key:
  assumes "GROQ_API_KEY env = None \<or> GROQ_API_KEY env = Some []"
  shows "GroqAI_identify_challenges env papers w =
     (Inr ''Error: Groq client not available'',
      st_error ''GROQ_API_KEY environment variable not set!'' w)"
  by (simp add: GroqAI_identify_challenges_def get_groq_client_none [OF assms])

lemma extract_keywords_with_key:
  assumes "GROQ_API_KEY env = Some key" and "key \<noteq> []"
    and "combined_text papers = Inr text"
  shows "GroqAI_extract_keywords env papers w =
     (Inr (case groq_create env (length (calls w))
                  \<lparr>model = ''llama-3.1-8b-instant'', prompt = keywords_prompt text,
                   temperature = 2 / 10\<rparr> of
             Groq_content content \<Rightarrow>
               map strip (filter (\<lambda>kw. strip kw \<noteq> []) (split CHR '','' content))
           | Groq_raises msg \<Rightarrow> []),
      record_call (Groq_call key
        \<lparr>model = ''llama-3.1-8b-instant'', prompt = keywords_prompt text,
         temperature = 2 / 10\<rparr>) w)"
  using assms
  by (simp add: GroqAI_extract_keywords_def get_groq_client_key chat_completion_def
      split: groq_reply.splits)

lemma extract_keywords_without_key:
  assumes "GROQ_API_KEY env = None \<or> GROQ_API_KEY env = Some []"
  shows "GroqAI_extract_keywords env papers w =
     (Inr [], st_error ''GROQ_API_KEY environment variable not set!'' w)"
  by (simp add: GroqAI_extract_keywords_def get_groq_client_none [OF assms])

lemma calls_record_call [simp]: "calls (record_call c w) = calls w @ [c]"
  by (simp add: record_call_def)

lemma calls_st_error [simp]: "calls (st_error msg w) = calls w"
  by (simp add: st_error_def)

lemma calls_st_error_exn [simp]: "calls (st_error_exn prefix e w) = calls w"
  by (simp add: st_error_exn_def)

lemma analysis_with_key:
  assumes "GROQ_API_KEY env = Some key" and "key \<noteq> []"
    and "combined_text papers = Inr text"
  shows "fst (analysis env papers w) =
     Inr (case groq_create env (length (calls w))
                  \<lparr>model = ''llama-3.1-8b-instant'', prompt = summarize_prompt text,
                   temperature = 3 / 10\<rparr> of
             Groq_content content \<Rightarrow> content
           | Groq_raises msg \<Rightarrow> ''Error generating summary: '' @ msg,
          case groq_create env (length (calls w) + 1)
                  \<lparr>model = ''llama-3.1-8b-instant'', prompt = explain_prompt text,
                   temperature = 5 / 10\<rparr> of
             Groq_content content \<Rightarrow> content
           | Groq_raises msg \<Rightarrow> ''Error generating explanation: '' @ msg,
          case groq_create env (length (calls w) + 2)
                  \<lparr>model = ''llama-3.1-8b-instant'', prompt = keywords_prompt text,
                   temperature = 2 / 10\<rparr> of
             Groq_content content \<Rightarrow>
               map strip (filter (\<lambda>kw. strip kw \<noteq> []) (split CHR '','' content))
           | Groq_raises msg \<Rightarrow> [],
          case groq_create env (length (calls w) + 3)
                  \<lparr>model = ''llama-3.1-8b-instant'', prompt = trends_prompt text,
                   temperature = 4 / 10\<rparr> of
             Groq_content content \<Rightarrow> content
           | Groq_raises msg \<Rightarrow> ''Error analyzing trends: '' @ msg,
          case groq_create env (length (calls w) + 4)
                  \<lparr>model = ''llama-3.1-8b-instant'', prompt = challenges_prompt text,
                   temperature = 4 / 10\<rparr> of
             Groq_content content \<Rightarrow> content
           | Groq_raises msg \<Rightarrow> ''Error identifying challenges: '' @ msg)"
  by (simp add: analysis_def summarize_papers_with_key [OF assms]
      explain_like_15_with_key [OF assms] extract_keywords_with_key [OF assms]
      analyze_trends_with_key [OF assms] identify_challenges_with_key [OF assms]
      eval_nat_numeral)

lemma analysis_without_key:
  assumes "GROQ_API_KEY env = None \<or> GROQ_API_KEY env = Some []"
  shows "fst (analysis env papers w) =
     Inr (''Error: Groq client not available'', ''Error: Groq client not available'', [],
          ''Error: Groq client not available'', ''Error: Groq client not available'')"
  by (simp add: analysis_def summarize_papers_without_key [OF assms]
      explain_like_15_without_key [OF assms] extract_keywords_without_key [OF assms]
      analyze_trends_without_key [OF assms] identify_challenges_without_key [OF assms])

lemma analysis_returns:
  assumes "combined_text papers = Inr text"
  shows "\<exists>r. fst (analysis env papers w) = Inr r"
proof (cases rule: get_groq_client_cases [of env])
  case (available key)
  then show ?thesis using analysis_with_key [OF available assms] by blast
next
  case missing
  then show ?thesis using analysis_without_key [OF missing] by blast
qed

lemma analysis_calls_without_key:
  assumes "GROQ_API_KEY env = None \<or> GROQ_API_KEY env = Some []"
  shows "calls (snd (analysis env papers w)) = calls w"
  by (simp add: analysis_def summarize_papers_without_key [OF assms]
      explain_like_15_without_key [OF assms] extract_keywords_without_key [OF assms]
      analyze_trends_without_key [OF assms] identify_challenges_without_key [OF assms])

lemma papers_first_id:
  assumes "map_exn paper_of_entry entries = Inr papers" and "papers \<noteq> []"
  shows "\<exists>i. getitem (hd papers) ''arxiv_id'' = Inr (PStr i)"
proof -
  from assms obtain e es p ps where "entries = e # es" "papers = p # ps"
    by (cases entries; cases papers) (auto simp: map_exn_Inr_iff)
  with assms(1) have "list_all2 (\<lambda>x y. paper_of_entry x = Inr y) (e # es) (p # ps)"
    by (simp only: map_exn_Inr_iff)
  then have "paper_of_entry e = Inr p" by simp
  then show ?thesis using \<open>papers = p # ps\<close> by (simp add: paper_getitem)
qed

lemma search_papers_bundle:
  assumes "query \<noteq> []"
    and "ArxivAPI_search_papers env query 5 w = (papers, w1)"
    and "papers \<noteq> []"
    and "fst (enrichment env papers w1) = Inr (related_works, citation_counts)"
  shows "\<exists>ai_summary explain_like_15 keywords trends open_challenges.
           fst (analysis env papers (snd (enrichment env papers w1))) =
             Inr (ai_summary, explain_like_15, keywords, trends, open_challenges)
         \<and> fst (ResearchAPI_search_papers env query w) =
             Some [(''papers'', PList papers),
                   (''ai_summary'', PStr ai_summary),
                   (''explain_like_15'', PStr explain_like_15),
                   (''keywords'', PList (map PStr keywords)),
                   (''related_works'', related_works),
                   (''citation_counts'', PDict citation_counts),
                   (''trends'', PStr trends),
                   (''open_challenges'', PStr open_challenges)]"
proof -
  from assms(2) have "fst (ArxivAPI_search_papers env query 5 w) = papers" by simp
  from arxiv_nonempty [OF this assms(3)] obtain entries
    where entries: "map_exn paper_of_entry entries = Inr papers" by blast
  from assms(4) obtain w2
    where e: "enrichment env papers w1 = (Inr (related_works, citation_counts), w2)"
    by (cases "enrichment env papers w1") simp
  from combined_text_papers [OF entries] obtain joined
    where tx: "combined_text papers = Inr joined" by blast
  from analysis_returns [OF tx, of env w2] obtain r
    where "fst (analysis env papers w2) = Inr r" by blast
  then obtain ai_summary explain_like_15 kws trends open_challenges w3
    where a: "analysis env papers w2 =
                (Inr (ai_summary, explain_like_15, kws, trends, open_challenges), w3)"
    by (cases "analysis env papers w2"; cases r) auto
  have "fst (ResearchAPI_search_papers env query w) =
             Some [(''papers'', PList papers),
                   (''ai_summary'', PStr ai_summary),
                   (''explain_like_15'', PStr explain_like_15),
                   (''keywords'', PList (map PStr kws)),
                   (''related_works'', related_works),
                   (''citation_counts'', PDict citation_counts),
                   (''trends'', PStr trends),
                   (''open_challenges'', PStr open_challenges)]"
    using assms(1-3) e a by (simp add: ResearchAPI_search_papers_def)
  with e a show ?thesis by simp
qed


lemma first_paper_id_of_feed:
  assumes "fst (ArxivAPI_search_papers env query n w) = papers" and "papers \<noteq> []"
  shows "\<exists>i. getitem (hd papers) ''arxiv_id'' = Inr (PStr i)"
proof -
  from arxiv_nonempty [OF assms] obtain entries
    where "map_exn paper_of_entry entries = Inr papers" by blast
  from papers_first_id [OF this assms(2)] show ?thesis .
qed


lemma search_papers_object:
  assumes "query \<noteq> []"
    and "fst (ArxivAPI_search_papers env query 5 w) = papers" and "papers \<noteq> []"
    and "getitem (hd papers) ''arxiv_id'' = Inr first_paper_id"
    and "\<not> non_object_body (scholar_get env (length (calls w) + 1)
           (''https://api.semanticscholar.org/graph/v1/paper/arXiv:'' @
              fmt (repr env) first_paper_id))"
  shows "\<exists>related_works citation_counts ai_summary explain_like_15 keywords trends
            open_challenges.
           citation_counts_of
             (fst (SemanticScholarAPI_get_paper_details env first_paper_id
                     (snd (ArxivAPI_search_papers env query 5 w)))) = Inr citation_counts
         \<and> fst (analysis env papers
                  (snd (enrichment env papers (snd (ArxivAPI_search_papers env query 5 w))))) =
             Inr (ai_summary, explain_like_15, keywords, trends, open_challenges)
         \<and> fst (ResearchAPI_search_papers env query w) =
             Some [(''papers'', PList papers),
                   (''ai_summary'', PStr ai_summary),
                   (''explain_like_15'', PStr explain_like_15),
                   (''keywords'', PList (map PStr keywords)),
                   (''related_works'', related_works),
                   (''citation_counts'', PDict citation_counts),
                   (''trends'', PStr trends),
                   (''open_challenges'', PStr open_challenges)]"
proof -
  obtain w1 where a: "ArxivAPI_search_papers env query 5 w = (papers, w1)"
    using assms(2) by (cases "ArxivAPI_search_papers env query 5 w") simp
  have "calls w1 = calls w @ [Arxiv_call arxiv_base_url (arxiv_params query 5)]"
    using arxiv_calls [of env query 5 w] a by simp
  then have t: "length (calls w1) = length (calls w) + 1" by simp
  from assms(3) obtain p ps where papers: "papers = p # ps" by (cases papers) auto
  with assms(4) have g: "getitem p ''arxiv_id'' = Inr first_paper_id" by simp
  have n: "\<not> non_object_body (scholar_get env (length (calls w1))
           (''https://api.semanticscholar.org/graph/v1/paper/arXiv:'' @
              fmt (repr env) first_paper_id))"
    unfolding t by (rule assms(5))
  from enrichment_returns [OF g n, of ps] obtain related_works citation_counts
    where e: "fst (enrichment env papers w1) = Inr (related_works, citation_counts)"
      and c: "citation_counts_of
             (fst (SemanticScholarAPI_get_paper_details env first_paper_id w1)) =
               Inr citation_counts"
    unfolding papers by (elim exE conjE)
  from search_papers_bundle [OF assms(1) a assms(3) e]
  obtain ai_summary explain_like_15 kws trends open_challenges
    where "fst (analysis env papers (snd (enrichment env papers w1))) =
             Inr (ai_summary, explain_like_15, kws, trends, open_challenges)"
      and "fst (ResearchAPI_search_papers env query w) =
             Some [(''papers'', PList papers),
                   (''ai_summary'', PStr ai_summary),
                   (''explain_like_15'', PStr explain_like_15),
                   (''keywords'', PList (map PStr kws)),
                   (''related_works'', related_works),
                   (''citation_counts'', PDict citation_counts),
                   (''trends'', PStr trends),
                   (''open_challenges'', PStr open_challenges)]"
    by (elim exE conjE)
  with c show ?thesis
    unfolding a snd_conv by (intro exI conjI)
qed

section \<open>Keyword extraction\<close>

text \<open>
  C5. \<^verbatim>\<open>GroqAI.extract_keywords\<close> turns the reply of the backend into keywords by
  splitting it at the commas, trimming each piece and dropping the empty ones, in order.
  The pieces are the comma-free parts of the reply between its commas; trimming removes
  whitespace at both ends and nothing else. The reply \<^verbatim>\<open>"  ml,  AI ,, robotics"\<close> gives
  \<^verbatim>\<open>["ml", "AI", "robotics"]\<close>.
\<close>

theorem extract_keywords_split_trim_drop:
  assumes "GROQ_API_KEY env = Some key" and "key \<noteq> []"
    and "combined_text papers = Inr text"
    and "groq_create env (length (calls w))
           \<lparr>model = ''llama-3.1-8b-instant'', prompt = keywords_prompt text,
            temperature = 2 / 10\<rparr> = Groq_content content"
  shows "fst (GroqAI_extract_keywords env papers w) =
           Inr (filter (\<lambda>k. k \<noteq> []) (map strip (split CHR '','' content)))
       \<and> join '','' (split CHR '','' content) = content
       \<and> (\<forall>p\<in>set (split CHR '','' content).
            CHR '','' \<notin> set p
          \<and> (\<exists>a b. p = a @ strip p @ b \<and> (\<forall>c\<in>set a. isspace c) \<and> (\<forall>c\<in>set b. isspace c))
          \<and> (strip p \<noteq> [] \<longrightarrow> \<not> isspace (hd (strip p)) \<and> \<not> isspace (last (strip p))))
       \<and> (content = ''  ml,  AI ,, robotics'' \<longrightarrow>
            fst (GroqAI_extract_keywords env papers w) = Inr [''ml'', ''AI'', ''robotics''])"
proof -
  have kw: "fst (GroqAI_extract_keywords env papers w) =
              Inr (filter (\<lambda>k. k \<noteq> []) (map strip (split CHR '','' content)))"
    using assms
    by (simp add: GroqAI_extract_keywords_def get_groq_client_key chat_completion_def
        strip_then_drop)
  have ex: "filter (\<lambda>k. k \<noteq> []) (map strip (split CHR '','' ''  ml,  AI ,, robotics'')) =
              [''ml'', ''AI'', ''robotics'']"
    by (simp add: strip_def isspace_def)
  have pieces: "\<forall>p\<in>set (split CHR '','' content).
            CHR '','' \<notin> set p
          \<and> (\<exists>a b. p = a @ strip p @ b \<and> (\<forall>c\<in>set a. isspace c) \<and> (\<forall>c\<in>set b. isspace c))
          \<and> (strip p \<noteq> [] \<longrightarrow> \<not> isspace (hd (strip p)) \<and> \<not> isspace (last (strip p)))"
    using split_no_sep strip_decomposition strip_trimmed by blast
  show ?thesis
    using kw ex pieces join_split [of "CHR '',''" content] by simp
qed

theorem extract_keywords_split_trim_drop_witness:
  "GROQ_API_KEY example_env = Some ''key'' \<and> ''key'' \<noteq> []
 \<and> combined_text [example_paper] = Inr ''We study nets.''
 \<and> fst (GroqAI_extract_keywords example_env [example_paper] example_world) =
     Inr [''ml'', ''AI'', ''robotics'']"
proof -
  have 1: "GROQ_API_KEY example_env = Some ''key''" by (simp add: example_env_def)
  have 2: "''key'' \<noteq> []" by simp
  have 3: "groq_create example_env (length (calls example_world))
           \<lparr>model = ''llama-3.1-8b-instant'', prompt = keywords_prompt ''We study nets.'',
            temperature = 2 / 10\<rparr> = Groq_content ''  ml,  AI ,, robotics''"
    by (simp add: example_env_def)
  have "fst (GroqAI_extract_keywords example_env [example_paper] example_world) =
          Inr [''ml'', ''AI'', ''robotics'']"
    using extract_keywords_split_trim_drop [OF 1 2 example_combined_text 3] by blast
  then show ?thesis
    using 1 example_combined_text by simp
qed

section \<open>The hard stops\<close>

lemma search_papers_no_papers:
  assumes "query \<noteq> []" and "fst (ArxivAPI_search_papers env query 5 w) = []"
  shows "ResearchAPI_search_papers env query w =
           (None, st_error ''No papers found for the given query''
                    (snd (ArxivAPI_search_papers env query 5 w)))"
  using assms by (simp add: ResearchAPI_search_papers_def split_beta)

text \<open>
  C4. The two hard stops of \<^verbatim>\<open>ResearchAPI.search_papers\<close>. For the empty query it
  returns no bundle, shows "Query is required" and makes no external call: the list of
  calls is unchanged. For a query whose arXiv search gives no papers it returns no
  bundle, shows "No papers found for the given query", and the only external call made
  is the one arXiv request: no Semantic Scholar call and no Groq call.
\<close>

theorem hard_stops_make_no_further_calls:
  "ResearchAPI_search_papers env [] w = (None, st_error ''Query is required'' w)
 \<and> calls (snd (ResearchAPI_search_papers env [] w)) = calls w
 \<and> (query \<noteq> [] \<and> fst (ArxivAPI_search_papers env query 5 w) = [] \<longrightarrow>
       fst (ResearchAPI_search_papers env query w) = None
     \<and> calls (snd (ResearchAPI_search_papers env query w)) =
         calls w @ [Arxiv_call arxiv_base_url (arxiv_params query 5)]
     \<and> last (shown (snd (ResearchAPI_search_papers env query w))) =
         St_error ''No papers found for the given query'')"
proof -
  have 1: "ResearchAPI_search_papers env [] w = (None, st_error ''Query is required'' w)"
    by (simp add: ResearchAPI_search_papers_def)
  have 2: "fst (ResearchAPI_search_papers env query w) = None
     \<and> calls (snd (ResearchAPI_search_papers env query w)) =
         calls w @ [Arxiv_call arxiv_base_url (arxiv_params query 5)]
     \<and> last (shown (snd (ResearchAPI_search_papers env query w))) =
         St_error ''No papers found for the given query''"
    if "query \<noteq> []" and "fst (ArxivAPI_search_papers env query 5 w) = []"
    using search_papers_no_papers [OF that] arxiv_calls [of env query 5 w]
    by (simp add: st_error_def)
  from 1 2 show ?thesis by simp
qed

lemma no_papers_arxiv:
  "fst (ArxivAPI_search_papers no_papers_env ''nets'' 5 example_world) = []"
  by (simp add: ArxivAPI_search_papers_def no_papers_env_def example_env_def arxiv_papers_def
      raise_for_status_def)

theorem hard_stops_make_no_further_calls_witness:
  "''nets'' \<noteq> [] \<and> fst (ArxivAPI_search_papers no_papers_env ''nets'' 5 example_world) = []
 \<and> fst (ResearchAPI_search_papers no_papers_env ''nets'' example_world) = None
 \<and> calls (snd (ResearchAPI_search_papers no_papers_env ''nets'' example_world)) =
     [Arxiv_call arxiv_base_url (arxiv_params ''nets'' 5)]"
proof -
  have 1: "''nets'' \<noteq> [] \<and>
    fst (ArxivAPI_search_papers no_papers_env ''nets'' 5 example_world) = []"
    using no_papers_arxiv by simp
  have "calls example_world = []" by (simp add: example_world_def)
  with 1 show ?thesis
    using hard_stops_make_no_further_calls [of no_papers_env example_world "''nets''"]
    by simp
qed

section \<open>Failed enrichment lookups\<close>

text \<open>
  C3. When the Semantic Scholar lookup fails (the request raises, the status is not 200,
  or there is no JSON body), \<^verbatim>\<open>get_paper_details\<close> returns the empty dictionary and
  \<^verbatim>\<open>get_related_works\<close> the empty list; both return a value, no exception leaves
  them. In \<^verbatim>\<open>search_papers\<close> the citation counts then carry the status
  "Semantic Scholar unavailable", and the related works are empty when the second
  lookup, the one \<^verbatim>\<open>get_related_works\<close> makes, fails too.
\<close>

theorem failed_lookup_is_not_escalated:
  assumes "lookup_failed (scholar_get env (length (calls w))
     (''https://api.semanticscholar.org/graph/v1/paper/arXiv:'' @ fmt (repr env) arxiv_id))"
  shows "fst (SemanticScholarAPI_get_paper_details env arxiv_id w) = PDict []
       \<and> fst (SemanticScholarAPI_get_related_works env arxiv_id w) = PList []
       \<and> (getitem first_paper ''arxiv_id'' = Inr arxiv_id \<longrightarrow>
            (\<exists>related_works. fst (enrichment env (first_paper # papers) w) =
               Inr (related_works,
                    [(''citations'', PInt 0), (''references'', PInt 0),
                     (''status'', PStr ''Semantic Scholar unavailable'')])))
       \<and> (getitem first_paper ''arxiv_id'' = Inr arxiv_id
          \<and> lookup_failed (scholar_get env (length (calls w) + 1)
               (''https://api.semanticscholar.org/graph/v1/paper/arXiv:'' @
                  fmt (repr env) arxiv_id)) \<longrightarrow>
            fst (enrichment env (first_paper # papers) w) =
               Inr (PList [],
                    [(''citations'', PInt 0), (''references'', PInt 0),
                     (''status'', PStr ''Semantic Scholar unavailable'')]))"
proof -
  have d: "fst (SemanticScholarAPI_get_paper_details env arxiv_id w) = PDict []"
    using assms by (rule details_failed)
  have r: "fst (SemanticScholarAPI_get_related_works env arxiv_id w) = PList []"
    using assms by (rule related_failed)
  have e: "\<exists>related_works. fst (enrichment env (first_paper # papers) w) =
               Inr (related_works,
                    [(''citations'', PInt 0), (''references'', PInt 0),
                     (''status'', PStr ''Semantic Scholar unavailable'')])"
    if "getitem first_paper ''arxiv_id'' = Inr arxiv_id"
    by (simp add: enrichment_first [OF that] d citation_counts_of_dict)
  have e2: "fst (enrichment env (first_paper # papers) w) =
               Inr (PList [],
                    [(''citations'', PInt 0), (''references'', PInt 0),
                     (''status'', PStr ''Semantic Scholar unavailable'')])"
    if g: "getitem first_paper ''arxiv_id'' = Inr arxiv_id"
      and f: "lookup_failed (scholar_get env (length (calls w) + 1)
               (''https://api.semanticscholar.org/graph/v1/paper/arXiv:'' @
                  fmt (repr env) arxiv_id))"
  proof -
    let ?w1 = "snd (SemanticScholarAPI_get_paper_details env arxiv_id w)"
    have "length (calls ?w1) = length (calls w) + 1"
      by (simp add: details_calls)
    with f have "fst (SemanticScholarAPI_get_related_works env arxiv_id ?w1) = PList []"
      by (intro related_failed) simp
    then show ?thesis by (simp add: enrichment_first [OF g] d citation_counts_of_dict)
  qed
  from d r e e2 show ?thesis by blast
qed

theorem failed_lookup_is_not_escalated_witness:
  "lookup_failed (scholar_get example_env (length (calls example_world))
     (''https://api.semanticscholar.org/graph/v1/paper/arXiv:'' @
        fmt (repr example_env) (PStr ''2401.00001v1'')))
 \<and> getitem example_paper ''arxiv_id'' = Inr (PStr ''2401.00001v1'')
 \<and> fst (SemanticScholarAPI_get_paper_details example_env (PStr ''2401.00001v1'')
          example_world) = PDict []
 \<and> fst (SemanticScholarAPI_get_related_works example_env (PStr ''2401.00001v1'')
          example_world) = PList []
 \<and> fst (enrichment example_env [example_paper] example_world) =
      Inr (PList [],
           [(''citations'', PInt 0), (''references'', PInt 0),
            (''status'', PStr ''Semantic Scholar unavailable'')])"
proof -
  have f: "\<And>t url. lookup_failed (scholar_get example_env t url)"
    by (simp add: example_env_def lookup_failed_def)
  have g: "getitem example_paper ''arxiv_id'' = Inr (PStr ''2401.00001v1'')"
    by (simp add: example_paper_def getitem_def)
  show ?thesis
    using failed_lookup_is_not_escalated [where env = example_env and w = example_world
        and arxiv_id = "PStr ''2401.00001v1''" and first_paper = example_paper
        and papers = "[]", OF f] f g
    by blast
qed

section \<open>The shape of the search result\<close>

lemma search_papers_Some:
  assumes "fst (ResearchAPI_search_papers env query w) = Some result"
  shows "query \<noteq> [] \<and> fst (ArxivAPI_search_papers env query 5 w) \<noteq> []"
  using assms
  by (auto simp: ResearchAPI_search_papers_def split_beta split: if_splits)

lemma search_papers_Some_enrichment:
  assumes "fst (ResearchAPI_search_papers env query w) = Some result"
  shows "\<exists>related_works citation_counts.
           fst (enrichment env (fst (ArxivAPI_search_papers env query 5 w))
                  (snd (ArxivAPI_search_papers env query 5 w))) =
             Inr (related_works, citation_counts)"
  using assms
  by (auto simp: ResearchAPI_search_papers_def split_beta split: if_splits sum.splits)

text \<open>
  C10. Every result of \<^verbatim>\<open>ResearchAPI.search_papers\<close> other than \<^verbatim>\<open>None\<close> is a
  dictionary with exactly the eight keys papers, ai_summary, explain_like_15, keywords,
  related_works, citation_counts, trends and open_challenges, in this order, and its
  papers are a non-empty list. So reading any of the eight keys never raises a
  \<^verbatim>\<open>KeyError\<close>, and \<^verbatim>\<open>get\<close> with a default never falls back to the default.
\<close>

theorem search_result_has_eight_fields:
  assumes "fst (ResearchAPI_search_papers env query w) = Some result"
  shows "map fst result =
           [''papers'', ''ai_summary'', ''explain_like_15'', ''keywords'', ''related_works'',
            ''citation_counts'', ''trends'', ''open_challenges'']
       \<and> (\<exists>papers. map_of result ''papers'' = Some (PList papers) \<and> papers \<noteq> [])
       \<and> (\<forall>key\<in>set [''papers'', ''ai_summary'', ''explain_like_15'', ''keywords'',
                       ''related_works'', ''citation_counts'', ''trends'',
                       ''open_challenges''].
            \<exists>v. getitem (PDict result) key = Inr v \<and> dict_get result key dflt = v)"
proof -
  obtain papers w1 where a: "ArxivAPI_search_papers env query 5 w = (papers, w1)"
    by (cases "ArxivAPI_search_papers env query 5 w")
  with search_papers_Some [OF assms] have "query \<noteq> []" "papers \<noteq> []" by simp_all
  moreover from search_papers_Some_enrichment [OF assms] a
  obtain related_works citation_counts
    where e: "fst (enrichment env papers w1) = Inr (related_works, citation_counts)"
    by auto
  ultimately obtain ai_summary explain_like_15 kws trends open_challenges
    where "result = [(''papers'', PList papers),
                   (''ai_summary'', PStr ai_summary),
                   (''explain_like_15'', PStr explain_like_15),
                   (''keywords'', PList (map PStr kws)),
                   (''related_works'', related_works),
                   (''citation_counts'', PDict citation_counts),
                   (''trends'', PStr trends),
                   (''open_challenges'', PStr open_challenges)]"
    using search_papers_bundle [OF _ a _ e] assms by auto
  with \<open>papers \<noteq> []\<close> show ?thesis
    by (simp add: getitem_def dict_get_def)
qed

lemma example_groq_create:
  "groq_create example_env t request =
     (if temperature request = 2 / 10 then Groq_content ''  ml,  AI ,, robotics''
      else if temperature request = 3 / 10 then Groq_raises ''timeout''
      else Groq_content ''text'')"
  by (simp add: example_env_def)

lemma example_papers_any_env:
  assumes "arxiv_get env = (\<lambda>t url params. Arxiv_response 200 [] (Feed [example_entry]))"
  shows "ArxivAPI_search_papers env query 5 example_world =
     ([example_paper],
      \<lparr>calls = [Arxiv_call arxiv_base_url (arxiv_params query 5)], shown = []\<rparr>)"
  by (simp add: ArxivAPI_search_papers_def assms example_world_def arxiv_papers_def
      raise_for_status_def example_entry_paper record_call_def)

lemma example_analysis:
  assumes "GROQ_API_KEY env = Some ''key''"
    and "groq_create env = groq_create example_env"
  shows "fst (analysis env [example_paper] w) =
      Inr (''Error generating summary: timeout'', ''text'', [''ml'', ''AI'', ''robotics''],
           ''text'', ''text'')"
proof -
  have k: "GROQ_API_KEY env = Some ''key''" "''key'' \<noteq> []"
    using assms(1) by simp_all
  show ?thesis
    by (simp only: analysis_with_key [OF k example_combined_text] assms(2))
       (simp add: example_groq_create strip_def isspace_def)
qed

lemma example_paper_id: "getitem example_paper ''arxiv_id'' = Inr (PStr ''2401.00001v1'')"
  by (simp add: example_paper_def getitem_def)

lemma example_search_result:
  assumes "query \<noteq> []"
  shows "fst (ResearchAPI_search_papers example_env query example_world) =
     Some example_result"
proof -
  have f: "\<And>t url. lookup_failed (scholar_get example_env t url)"
    by (simp add: example_env_def lookup_failed_def)
  have e: "fst (enrichment example_env [example_paper] w) =
      Inr (PList [],
           [(''citations'', PInt 0), (''references'', PInt 0),
            (''status'', PStr ''Semantic Scholar unavailable'')])" for w
    by (simp add: enrichment_first [OF example_paper_id] details_failed [OF f]
        related_failed [OF f] citation_counts_of_dict)
  have a: "fst (analysis example_env [example_paper] w) =
      Inr (''Error generating summary: timeout'', ''text'', [''ml'', ''AI'', ''robotics''],
           ''text'', ''text'')" for w
    by (rule example_analysis) (simp_all add: example_env_def)
  from search_papers_bundle [OF assms example_papers _ e] show ?thesis
    by (simp add: a example_result_def)
qed

lemma zero_citations_search_result:
  assumes "query \<noteq> []"
  shows "fst (ResearchAPI_search_papers zero_citations_env query example_world) =
     Some zero_citations_result"
proof -
  have d: "fst (SemanticScholarAPI_get_paper_details zero_citations_env i w) =
      PDict [(''paperId'', PStr ''abc''), (''citationCount'', PInt 0),
             (''referenceCount'', PInt 0)]" for i w
    by (rule details_found) (simp add: zero_citations_env_def)
  have r: "fst (SemanticScholarAPI_get_related_works zero_citations_env i w) = PList []"
    for i w
    by (simp add: SemanticScholarAPI_get_related_works_def split_beta d related_works_of_def
        truthy_def contains_def)
  have e: "fst (enrichment zero_citations_env [example_paper] w) =
      Inr (PList [], [(''citations'', PInt 0), (''references'', PInt 0)])" for w
    by (simp add: enrichment_first [OF example_paper_id] d r citation_counts_of_dict
        dict_get_def)
  have a: "fst (analysis zero_citations_env [example_paper] w) =
      Inr (''Error generating summary: timeout'', ''text'', [''ml'', ''AI'', ''robotics''],
           ''text'', ''text'')" for w
    by (rule example_analysis) (simp_all add: zero_citations_env_def example_env_def)
  have p: "ArxivAPI_search_papers zero_citations_env query 5 example_world =
     ([example_paper],
      \<lparr>calls = [Arxiv_call arxiv_base_url (arxiv_params query 5)], shown = []\<rparr>)"
    by (rule example_papers_any_env) (simp add: zero_citations_env_def example_env_def)
  from search_papers_bundle [OF assms p _ e] show ?thesis
    by (simp add: a zero_citations_result_def)
qed

theorem search_result_has_eight_fields_witness:
  "fst (ResearchAPI_search_papers example_env ''nets'' example_world) = Some example_result
 \<and> map fst example_result =
       [''papers'', ''ai_summary'', ''explain_like_15'', ''keywords'', ''related_works'',
        ''citation_counts'', ''trends'', ''open_challenges'']
 \<and> (\<exists>papers. map_of example_result ''papers'' = Some (PList papers) \<and> papers \<noteq> [])"
proof -
  have 1: "fst (ResearchAPI_search_papers example_env ''nets'' example_world) =
    Some example_result"
    by (rule example_search_result) simp
  from search_result_has_eight_fields [OF 1] 1 show ?thesis by blast
qed

section \<open>The papers of the bundle\<close>






section \<open>Entries that cannot be extracted\<close>

lemma broken_entry_papers:
  "fst (ArxivAPI_search_papers broken_entry_env ''nets'' 5 example_world) = []"
  by (simp add: ArxivAPI_search_papers_def broken_entry_env_def example_env_def
      example_world_def arxiv_papers_def raise_for_status_def paper_of_entry_def
      example_entry_def entry_without_title_def text_strip_def text_of_def author_name_def
      strip_def isspace_def record_call_def)

text \<open>
  C2, as stated, fails: a feed of a well-formed entry and an entry without a title
  makes \<^verbatim>\<open>ArxivAPI.search_papers\<close> return the empty list; the well-formed entry is lost
  with it.
\<close>

theorem broken_entry_counterexample:
  "arxiv_get broken_entry_env 0 arxiv_base_url (arxiv_params ''nets'' 5) =
     Arxiv_response 200 [] (Feed [example_entry, entry_without_title])
 \<and> paper_of_entry example_entry = Inr example_paper
 \<and> paper_of_entry entry_without_title = Inl AttributeError
 \<and> fst (ArxivAPI_search_papers broken_entry_env ''nets'' 5 example_world) = []"
  using broken_entry_papers example_entry_paper
  by (simp add: broken_entry_env_def paper_of_entry_def entry_without_title_def
      text_strip_def text_of_def)

lemma entry_without_authors_is_kept:
  "paper_of_entry (example_entry\<lparr>author_name_els := []\<rparr>) =
     Inr (PDict
       [(''title'', PStr ''Deep Nets''),
        (''authors'', PList []),
        (''abstract'', PStr ''We study nets.''),
        (''published'', PStr ''2024-01-02''),
        (''url'', PStr ''http://arxiv.org/abs/2401.00001v1''),
        (''arxiv_id'', PStr ''2401.00001v1'')])"
  by (simp add: paper_of_entry_def example_entry_def text_strip_def text_of_def
      strip_def isspace_def)

lemma map_exn_total:
  assumes "\<forall>x\<in>set xs. \<exists>y. f x = Inr y"
  shows "\<exists>ys. map_exn f xs = Inr ys"
  using assms by (induction xs) auto

text \<open>
  C2, amended. The extraction of all entries is one \<^verbatim>\<open>try\<close> block. When arXiv answers
  with a feed and the extraction of any entry raises (a title, summary, published or
  id element that is missing or has no text, an author without a name element), the
  whole call returns the empty list and shows the error. When the extraction of every
  entry succeeds, the call returns one paper for each entry, in the order of the feed.
\<close>

theorem one_bad_entry_empties_the_batch:
  assumes "arxiv_get env (length (calls w)) arxiv_base_url (arxiv_params query n) =
             Arxiv_response status msg (Feed entries)"
    and "\<not> (400 \<le> status \<and> status < 600)"
  shows "((\<exists>e\<in>set entries. \<exists>x. paper_of_entry e = Inl x) \<longrightarrow>
            fst (ArxivAPI_search_papers env query n w) = []
          \<and> (\<exists>x. shown (snd (ArxivAPI_search_papers env query n w)) =
                   shown w @ [St_error_exn ''Error fetching from arXiv: '' x]))
       \<and> ((\<forall>e\<in>set entries. \<exists>p. paper_of_entry e = Inr p) \<longrightarrow>
            length (fst (ArxivAPI_search_papers env query n w)) = length entries
          \<and> (\<forall>i<length entries.
                paper_of_entry (entries ! i) =
                  Inr (fst (ArxivAPI_search_papers env query n w) ! i)))"
proof -
  have p: "arxiv_papers (arxiv_get env (length (calls w)) arxiv_base_url
             (arxiv_params query n)) = map_exn paper_of_entry entries"
    using assms by (auto simp: arxiv_papers_def raise_for_status_def)
  have bad: "fst (ArxivAPI_search_papers env query n w) = []
          \<and> (\<exists>x. shown (snd (ArxivAPI_search_papers env query n w)) =
                   shown w @ [St_error_exn ''Error fetching from arXiv: '' x])"
    if "\<exists>e\<in>set entries. \<exists>x. paper_of_entry e = Inl x"
  proof -
    from that obtain e y where "e \<in> set entries" "paper_of_entry e = Inl y"
      by blast
    from map_exn_Inl [where f = paper_of_entry, OF this] obtain x where "map_exn paper_of_entry entries = Inl x"
      by blast
    with p show ?thesis
      by (simp add: ArxivAPI_search_papers_def st_error_exn_def record_call_def)
  qed
  have good: "length (fst (ArxivAPI_search_papers env query n w)) = length entries
          \<and> (\<forall>i<length entries.
                paper_of_entry (entries ! i) =
                  Inr (fst (ArxivAPI_search_papers env query n w) ! i))"
    if "\<forall>e\<in>set entries. \<exists>p. paper_of_entry e = Inr p"
  proof -
    from map_exn_total [OF that] obtain ps
      where ps: "map_exn paper_of_entry entries = Inr ps" by blast
    with p have "fst (ArxivAPI_search_papers env query n w) = ps"
      by (simp add: ArxivAPI_search_papers_def)
    with ps show ?thesis
      by (simp add: map_exn_Inr_length map_exn_Inr_nth)
  qed
  show ?thesis
  proof (rule conjI; rule impI)
    assume "\<exists>e\<in>set entries. \<exists>x. paper_of_entry e = Inl x"
    then show "fst (ArxivAPI_search_papers env query n w) = []
          \<and> (\<exists>x. shown (snd (ArxivAPI_search_papers env query n w)) =
                   shown w @ [St_error_exn ''Error fetching from arXiv: '' x])"
      by (rule bad)
  next
    assume "\<forall>e\<in>set entries. \<exists>p. paper_of_entry e = Inr p"
    then show "length (fst (ArxivAPI_search_papers env query n w)) = length entries
          \<and> (\<forall>i<length entries.
                paper_of_entry (entries ! i) =
                  Inr (fst (ArxivAPI_search_papers env query n w) ! i))"
      by (rule good)
  qed
qed

theorem one_bad_entry_empties_the_batch_witness:
  "arxiv_get broken_entry_env (length (calls example_world)) arxiv_base_url
     (arxiv_params ''nets'' 5) =
       Arxiv_response 200 [] (Feed [example_entry, entry_without_title])
 \<and> \<not> (400 \<le> (200::nat) \<and> (200::nat) < 600)
 \<and> (\<exists>e\<in>set [example_entry, entry_without_title]. \<exists>x. paper_of_entry e = Inl x)
 \<and> fst (ArxivAPI_search_papers broken_entry_env ''nets'' 5 example_world) = []"
proof -
  have 1: "arxiv_get broken_entry_env (length (calls example_world)) arxiv_base_url
     (arxiv_params ''nets'' 5) =
       Arxiv_response 200 [] (Feed [example_entry, entry_without_title])"
    by (simp add: broken_entry_env_def)
  have 2: "\<not> (400 \<le> (200::nat) \<and> (200::nat) < 600)" by simp
  have 3: "\<exists>e\<in>set [example_entry, entry_without_title]. \<exists>x. paper_of_entry e = Inl x"
    by (simp add: paper_of_entry_def entry_without_title_def text_strip_def text_of_def)
  from one_bad_entry_empties_the_batch [OF 1 2, THEN conjunct1, THEN mp, OF 3]
  have "fst (ArxivAPI_search_papers broken_entry_env ''nets'' 5 example_world) = []"
    by (rule conjunct1)
  with 1 2 3 show ?thesis by (intro conjI)
qed

section \<open>Independent failure of the analysis calls\<close>

lemma enrichment_calls_length:
  assumes "map_exn paper_of_entry entries = Inr papers" and "papers \<noteq> []"
  shows "length (calls (snd (enrichment env papers w))) = length (calls w) + 2"
proof -
  from papers_first_id [OF assms] obtain i
    where i: "getitem (hd papers) ''arxiv_id'' = Inr (PStr i)" by blast
  from assms(2) obtain p ps where papers: "papers = p # ps" by (cases papers) auto
  with i have "getitem p ''arxiv_id'' = Inr (PStr i)" by simp
  from enrichment_calls [OF this, of env ps w] show ?thesis
    by (simp add: papers)
qed

text \<open>
  C7. Take the API key set, a query that is not empty, at least one paper from arXiv,
  and an enrichment that does not raise: Semantic Scholar answers the lookup of the
  first paper with anything but status 200 and a truthy body that is not a JSON object.
  Then \<^verbatim>\<open>search_papers\<close> returns a bundle whatever the five analysis calls do, and
  each of its five analysis fields is decided by the reply to its own request alone
  (the requests are the calls number 3 to 7 after the arXiv call and the two Semantic
  Scholar calls): the text of the reply when the call returns, and when it raises the
  explanatory string \<^verbatim>\<open>Error ...: <message>\<close>, or the empty list for the keywords. A
  failure of one call changes no other field and does not stop the construction of the
  bundle.
\<close>

theorem analysis_fields_fail_independently:
  assumes "query \<noteq> []"
    and "GROQ_API_KEY env = Some key" and "key \<noteq> []"
    and "fst (ArxivAPI_search_papers env query 5 w) = papers" and "papers \<noteq> []"
    and "combined_text papers = Inr text"
    and "getitem (hd papers) ''arxiv_id'' = Inr first_paper_id"
    and "\<not> non_object_body (scholar_get env (length (calls w) + 1)
           (''https://api.semanticscholar.org/graph/v1/paper/arXiv:'' @
              fmt (repr env) first_paper_id))"
  shows "\<exists>result.
      fst (ResearchAPI_search_papers env query w) = Some result
    \<and> map_of result ''ai_summary'' =
        Some (PStr (case groq_create env (length (calls w) + 3)
                      \<lparr>model = ''llama-3.1-8b-instant'', prompt = summarize_prompt text,
                       temperature = 3 / 10\<rparr> of
                 Groq_content content \<Rightarrow> content
               | Groq_raises msg \<Rightarrow> ''Error generating summary: '' @ msg))
    \<and> map_of result ''explain_like_15'' =
        Some (PStr (case groq_create env (length (calls w) + 4)
                      \<lparr>model = ''llama-3.1-8b-instant'', prompt = explain_prompt text,
                       temperature = 5 / 10\<rparr> of
                 Groq_content content \<Rightarrow> content
               | Groq_raises msg \<Rightarrow> ''Error generating explanation: '' @ msg))
    \<and> map_of result ''keywords'' =
        Some (PList (map PStr (case groq_create env (length (calls w) + 5)
                      \<lparr>model = ''llama-3.1-8b-instant'', prompt = keywords_prompt text,
                       temperature = 2 / 10\<rparr> of
                 Groq_content content \<Rightarrow>
                   map strip (filter (\<lambda>kw. strip kw \<noteq> []) (split CHR '','' content))
               | Groq_raises msg \<Rightarrow> [])))
    \<and> map_of result ''trends'' =
        Some (PStr (case groq_create env (length (calls w) + 6)
                      \<lparr>model = ''llama-3.1-8b-instant'', prompt = trends_prompt text,
                       temperature = 4 / 10\<rparr> of
                 Groq_content content \<Rightarrow> content
               | Groq_raises msg \<Rightarrow> ''Error analyzing trends: '' @ msg))
    \<and> map_of result ''open_challenges'' =
        Some (PStr (case groq_create env (length (calls w) + 7)
                      \<lparr>model = ''llama-3.1-8b-instant'', prompt = challenges_prompt text,
                       temperature = 4 / 10\<rparr> of
                 Groq_content content \<Rightarrow> content
               | Groq_raises msg \<Rightarrow> ''Error identifying challenges: '' @ msg))"
proof -
  let ?w1 = "snd (ArxivAPI_search_papers env query 5 w)"
  from arxiv_nonempty [OF assms(4,5)] obtain entries
    where entries: "map_exn paper_of_entry entries = Inr papers" by blast
  have "calls ?w1 = calls w @ [Arxiv_call arxiv_base_url (arxiv_params query 5)]"
    by (rule arxiv_calls)
  then have n: "length (calls (snd (enrichment env papers ?w1))) = length (calls w) + 3"
    by (simp add: enrichment_calls_length [OF entries assms(5)])
  from search_papers_object [OF assms(1,4,5,7,8)]
  obtain related_works citation_counts ai_summary explain_like_15 kws trends open_challenges
    where an: "fst (analysis env papers (snd (enrichment env papers ?w1))) =
             Inr (ai_summary, explain_like_15, kws, trends, open_challenges)"
      and r: "fst (ResearchAPI_search_papers env query w) =
             Some [(''papers'', PList papers),
                   (''ai_summary'', PStr ai_summary),
                   (''explain_like_15'', PStr explain_like_15),
                   (''keywords'', PList (map PStr kws)),
                   (''related_works'', related_works),
                   (''citation_counts'', PDict citation_counts),
                   (''trends'', PStr trends),
                   (''open_challenges'', PStr open_challenges)]"
    by (elim exE conjE)
  note an [unfolded analysis_with_key [OF assms(2,3,6)] n sum.inject prod.inject]
  then have f: "ai_summary = (case groq_create env (length (calls w) + 3)
                      \<lparr>model = ''llama-3.1-8b-instant'', prompt = summarize_prompt text,
                       temperature = 3 / 10\<rparr> of
                 Groq_content content \<Rightarrow> content
               | Groq_raises msg \<Rightarrow> ''Error generating summary: '' @ msg)"
    "explain_like_15 = (case groq_create env (length (calls w) + 4)
                      \<lparr>model = ''llama-3.1-8b-instant'', prompt = explain_prompt text,
                       temperature = 5 / 10\<rparr> of
                 Groq_content content \<Rightarrow> content
               | Groq_raises msg \<Rightarrow> ''Error generating explanation: '' @ msg)"
    "kws = (case groq_create env (length (calls w) + 5)
                      \<lparr>model = ''llama-3.1-8b-instant'', prompt = keywords_prompt text,
                       temperature = 2 / 10\<rparr> of
                 Groq_content content \<Rightarrow>
                   map strip (filter (\<lambda>kw. strip kw \<noteq> []) (split CHR '','' content))
               | Groq_raises msg \<Rightarrow> [])"
    "trends = (case groq_create env (length (calls w) + 6)
                      \<lparr>model = ''llama-3.1-8b-instant'', prompt = trends_prompt text,
                       temperature = 4 / 10\<rparr> of
                 Groq_content content \<Rightarrow> content
               | Groq_raises msg \<Rightarrow> ''Error analyzing trends: '' @ msg)"
    "open_challenges = (case groq_create env (length (calls w) + 7)
                      \<lparr>model = ''llama-3.1-8b-instant'', prompt = challenges_prompt text,
                       temperature = 4 / 10\<rparr> of
                 Groq_content content \<Rightarrow> content
               | Groq_raises msg \<Rightarrow> ''Error identifying challenges: '' @ msg)"
    by (simp_all only: add.assoc numeral_plus_numeral one_plus_numeral numeral_plus_one
          semiring_norm)
  have m: "map_of [(''papers'', PList papers),
                   (''ai_summary'', PStr ai_summary),
                   (''explain_like_15'', PStr explain_like_15),
                   (''keywords'', PList (map PStr kws)),
                   (''related_works'', related_works),
                   (''citation_counts'', PDict citation_counts),
                   (''trends'', PStr trends),
                   (''open_challenges'', PStr open_challenges)] ''ai_summary'' =
             Some (PStr ai_summary)"
    "map_of [(''papers'', PList papers),
                   (''ai_summary'', PStr ai_summary),
                   (''explain_like_15'', PStr explain_like_15),
                   (''keywords'', PList (map PStr kws)),
                   (''related_works'', related_works),
                   (''citation_counts'', PDict citation_counts),
                   (''trends'', PStr trends),
                   (''open_challenges'', PStr open_challenges)] ''explain_like_15'' =
             Some (PStr explain_like_15)"
    "map_of [(''papers'', PList papers),
                   (''ai_summary'', PStr ai_summary),
                   (''explain_like_15'', PStr explain_like_15),
                   (''keywords'', PList (map PStr kws)),
                   (''related_works'', related_works),
                   (''citation_counts'', PDict citation_counts),
                   (''trends'', PStr trends),
                   (''open_challenges'', PStr open_challenges)] ''keywords'' =
             Some (PList (map PStr kws))"
    "map_of [(''papers'', PList papers),
                   (''ai_summary'', PStr ai_summary),
                   (''explain_like_15'', PStr explain_like_15),
                   (''keywords'', PList (map PStr kws)),
                   (''related_works'', related_works),
                   (''citation_counts'', PDict citation_counts),
                   (''trends'', PStr trends),
                   (''open_challenges'', PStr open_challenges)] ''trends'' =
             Some (PStr trends)"
    "map_of [(''papers'', PList papers),
                   (''ai_summary'', PStr ai_summary),
                   (''explain_like_15'', PStr explain_like_15),
                   (''keywords'', PList (map PStr kws)),
                   (''related_works'', related_works),
                   (''citation_counts'', PDict citation_counts),
                   (''trends'', PStr trends),
                   (''open_challenges'', PStr open_challenges)] ''open_challenges'' =
             Some (PStr open_challenges)"
    by simp_all
  show ?thesis
    by (rule exI, intro conjI, rule r) (simp_all only: m, simp_all only: f)
qed

theorem analysis_fields_fail_independently_witness:
  "''nets'' \<noteq> [] \<and> GROQ_API_KEY example_env = Some ''key'' \<and> ''key'' \<noteq> []
 \<and> fst (ArxivAPI_search_papers example_env ''nets'' 5 example_world) = [example_paper]
 \<and> [example_paper] \<noteq> []
 \<and> combined_text [example_paper] = Inr ''We study nets.''
 \<and> getitem (hd [example_paper]) ''arxiv_id'' = Inr (PStr ''2401.00001v1'')
 \<and> \<not> non_object_body (scholar_get example_env (length (calls example_world) + 1)
         (''https://api.semanticscholar.org/graph/v1/paper/arXiv:'' @
            fmt (repr example_env) (PStr ''2401.00001v1'')))
 \<and> (\<exists>result.
      fst (ResearchAPI_search_papers example_env ''nets'' example_world) = Some result
    \<and> map_of result ''ai_summary'' = Some (PStr ''Error generating summary: timeout'')
    \<and> map_of result ''explain_like_15'' = Some (PStr ''text'')
    \<and> map_of result ''keywords'' = Some (PList [PStr ''ml'', PStr ''AI'', PStr ''robotics''])
    \<and> map_of result ''trends'' = Some (PStr ''text'')
    \<and> map_of result ''open_challenges'' = Some (PStr ''text''))"
proof -
  have 1: "''nets'' \<noteq> []" by simp
  have 2: "GROQ_API_KEY example_env = Some ''key''" by (simp add: example_env_def)
  have 3: "''key'' \<noteq> []" by simp
  have 4: "fst (ArxivAPI_search_papers example_env ''nets'' 5 example_world) =
    [example_paper]"
    by (simp add: example_papers)
  have 5: "[example_paper] \<noteq> []" by simp
  have 6: "getitem (hd [example_paper]) ''arxiv_id'' = Inr (PStr ''2401.00001v1'')"
    by (simp add: example_paper_id)
  have 7: "\<not> non_object_body (scholar_get example_env (length (calls example_world) + 1)
         (''https://api.semanticscholar.org/graph/v1/paper/arXiv:'' @
            fmt (repr example_env) (PStr ''2401.00001v1'')))"
    by (simp add: example_env_def non_object_body_def)
  from analysis_fields_fail_independently [OF 1 2 3 4 5 example_combined_text 6 7]
  obtain result where
    "fst (ResearchAPI_search_papers example_env ''nets'' example_world) = Some result
    \<and> map_of result ''ai_summary'' = Some (PStr ''Error generating summary: timeout'')
    \<and> map_of result ''explain_like_15'' = Some (PStr ''text'')
    \<and> map_of result ''keywords'' = Some (PList [PStr ''ml'', PStr ''AI'', PStr ''robotics''])
    \<and> map_of result ''trends'' = Some (PStr ''text'')
    \<and> map_of result ''open_challenges'' = Some (PStr ''text'')"
    by (elim exE) (simp add: example_groq_create strip_def isspace_def)
  then show ?thesis
    using 2 4 6 7 example_combined_text by (intro conjI exI [of _ result]) simp_all
qed

section \<open>The exported document\<close>

text \<open>
  C8. \<^verbatim>\<open>ResearchAPI.export_results\<close> makes no external call: the list of calls is
  unchanged. Its result, the content and the filename (or \<^verbatim>\<open>None\<close>), is the same
  when it is called a second time on the same query and bundle, and it stays the same
  however the external services, the API key and the state of the world are changed:
  it is a function of the query and the bundle.
\<close>

theorem export_is_pure:
  "calls (snd (ResearchAPI_export_results env query search_result w)) = calls w
 \<and> fst (ResearchAPI_export_results env query search_result
          (snd (ResearchAPI_export_results env query search_result w))) =
     fst (ResearchAPI_export_results env query search_result w)
 \<and> fst (ResearchAPI_export_results
          (env\<lparr>GROQ_API_KEY := k, arxiv_get := a, scholar_get := s, groq_create := g\<rparr>)
          query search_result w') =
     fst (ResearchAPI_export_results env query search_result w)"
  by (simp add: ResearchAPI_export_results_def split: sum.splits)

lemma returns_Inr [simp]: "returns (Inr x)"
  by (simp add: returns_def)

lemma returns_Inl [simp]: "\<not> returns (Inl e)"
  by (simp add: returns_def)

lemma returns_iff: "returns r \<longleftrightarrow> (\<exists>x. r = Inr x)"
  by (cases r) simp_all

lemma returns_then_do: "returns (then_do r f) \<longleftrightarrow> (\<exists>x. r = Inr x \<and> returns (f x))"
  by (cases r) simp_all

lemma map_exn_returns: "returns (map_exn f xs) \<longleftrightarrow> list_all (\<lambda>x. returns (f x)) xs"
proof (induction xs)
  case Nil
  show ?case by simp
next
  case (Cons x xs)
  then show ?case
    by (cases "f x"; cases "map_exn f xs") simp_all
qed

lemma as_str_returns: "returns (as_str v) \<longleftrightarrow> is_str v"
  by (cases v) (simp_all add: as_str_def is_str_def)

lemma map_exn_as_str: "(\<exists>ss. map_exn as_str xs = Inr ss) \<longleftrightarrow> list_all is_str xs"
  unfolding returns_iff [symmetric] by (simp add: map_exn_returns as_str_returns)

lemma py_join_returns: "returns (py_join sep v) \<longleftrightarrow> joinable v"
proof -
  have "returns (py_join sep v) \<longleftrightarrow> (\<exists>items. iter v = Inr items \<and> list_all is_str items)"
    by (simp add: py_join_def returns_then_do map_exn_as_str)
  also have "\<dots> \<longleftrightarrow> joinable v"
    by (cases v) (simp_all add: iter_def joinable_def list_all_iff is_str_def)
  finally show ?thesis .
qed

lemma paper_section_returns: "returns (paper_section rp i paper) \<longleftrightarrow> exportable_paper paper"
proof (cases paper)
  case (PDict d)
  show ?thesis
    unfolding PDict paper_section_def
    by (cases "map_of d ''title''"; cases "map_of d ''authors''"; cases "map_of d ''published''";
        cases "map_of d ''url''"; cases "map_of d ''abstract''")
       (simp_all add: getitem_def exportable_paper_def returns_then_do flip: py_join_returns [of "'', ''"] returns_iff)
qed (simp_all add: paper_section_def getitem_def exportable_paper_def)

lemma paper_sections_returns:
  "returns (paper_sections rp i ps) \<longleftrightarrow> list_all exportable_paper ps"
proof (induction ps arbitrary: i)
  case Nil
  show ?case by simp
next
  case (Cons p ps)
  from Cons [of "Suc i"] show ?case
    by (cases "paper_section rp i p"; cases "paper_sections rp (Suc i) ps")
       (simp_all flip: paper_section_returns [of rp i])
qed

lemma work_line_returns: "returns (work_line rp work) \<longleftrightarrow> is_dict work"
  by (cases work) (simp_all add: work_line_def get_def is_dict_def split: option.splits)

lemma map_exn_work_line:
  "(\<exists>work_lines. map_exn (work_line rp) works = Inr work_lines) \<longleftrightarrow> list_all is_dict works"
  unfolding returns_iff [symmetric] by (simp add: map_exn_returns work_line_returns)

lemma paper_sections_Inr:
  "(\<exists>sections. paper_sections rp i ps = Inr sections) \<longleftrightarrow> list_all exportable_paper ps"
  unfolding returns_iff [symmetric] by (rule paper_sections_returns)

lemma py_join_Inr: "(\<exists>s. py_join sep v = Inr s) \<longleftrightarrow> joinable v"
  unfolding returns_iff [symmetric] by (rule py_join_returns)

lemma len_of_iter: "iter v = Inr items \<Longrightarrow> len v = Inr (length items)"
  by (cases v) (auto simp: iter_def len_def)

lemma iter_of_len: "len v = Inr n \<Longrightarrow> \<exists>items. iter v = Inr items"
  by (cases v) (auto simp: iter_def len_def)

lemma export_document_returns:
  "returns (export_document rp query search_result) \<longleftrightarrow> exportable search_result"
proof
  assume "exportable search_result"
  then obtain papers items ai_summary explain_like_15 keys trends open_challenges
      related_works works
    where f: "map_of search_result ''papers'' = Some papers" "iter papers = Inr items"
        "list_all exportable_paper items"
        "map_of search_result ''ai_summary'' = Some ai_summary"
        "map_of search_result ''explain_like_15'' = Some explain_like_15"
        "map_of search_result ''keywords'' = Some keys" "joinable keys"
        "map_of search_result ''trends'' = Some trends"
        "map_of search_result ''open_challenges'' = Some open_challenges"
        "map_of search_result ''related_works'' = Some related_works"
        "then_do (slice_to 5 related_works) iter = Inr works" "list_all is_dict works"
    by (auto simp: exportable_def split: option.splits sum.splits)
  from iffD2 [OF paper_sections_Inr [where rp = rp and i = 1] f(3)]
  obtain sections where s: "paper_sections rp 1 items = Inr sections"
    by (elim exE)
  from iffD2 [OF py_join_Inr [where sep = "'', ''"] f(7)]
  obtain kws where k: "py_join '', '' keys = Inr kws"
    by (elim exE)
  from iffD2 [OF map_exn_work_line [where rp = rp] f(12)]
  obtain work_lines where l: "map_exn (work_line rp) works = Inr work_lines"
    by (elim exE)
  show "returns (export_document rp query search_result)"
    using s by (simp add: export_document_def getitem_def f len_of_iter [OF f(2)] k l)
next
  assume "returns (export_document rp query search_result)"
  then obtain result where "export_document rp query search_result = Inr result"
    unfolding returns_iff by (elim exE)
  then obtain papers n items sections ai_summary explain_like_15 keys kws trends
      open_challenges related_works works work_lines
    where f: "map_of search_result ''papers'' = Some papers" "iter papers = Inr items"
        "paper_sections rp 1 items = Inr sections"
        "map_of search_result ''ai_summary'' = Some ai_summary"
        "map_of search_result ''explain_like_15'' = Some explain_like_15"
        "map_of search_result ''keywords'' = Some keys"
        "py_join '', '' keys = Inr kws"
        "map_of search_result ''trends'' = Some trends"
        "map_of search_result ''open_challenges'' = Some open_challenges"
        "map_of search_result ''related_works'' = Some related_works"
        "then_do (slice_to 5 related_works) iter = Inr works"
        "map_exn (work_line rp) works = Inr work_lines"
    by (auto simp: export_document_def then_do_eq_Inr getitem_def split: option.splits)
  have "list_all exportable_paper items"
    by (rule iffD1 [OF paper_sections_Inr exI, OF f(3)])
  moreover have "joinable keys"
    by (rule iffD1 [OF py_join_Inr exI, OF f(7)])
  moreover have "list_all is_dict works"
    by (rule iffD1 [OF map_exn_work_line exI, OF f(12)])
  ultimately show "exportable search_result"
    using f by (simp add: exportable_def)
qed

lemma export_document_filename:
  assumes "export_document rp query search_result = Inr result"
  shows "\<exists>content. result =
           [(''content'', PStr content),
            (''filename'', PStr (''research_summary_'' @
               map (\<lambda>c. if c = CHR '' '' then CHR ''_'' else c) query @ ''.md''))]"
  using assms by (auto simp: export_document_def then_do_eq_Inr replace_def)

text \<open>
  C9. For every query, \<^verbatim>\<open>export_results\<close> returns a document exactly when the bundle
  can be written, which does not depend on the query, and returns \<^verbatim>\<open>None\<close>
  otherwise. The document has the two entries content and filename, and the filename
  is \<^verbatim>\<open>research_summary_\<close>, then the query with every space replaced by an
  underscore, then \<^verbatim>\<open>.md\<close>. For the query \<^verbatim>\<open>deep learning\<close> it is
  \<^verbatim>\<open>research_summary_deep_learning.md\<close>.
\<close>

theorem export_filename:
  "(exportable search_result \<longrightarrow>
      (\<exists>content.
         fst (ResearchAPI_export_results env query search_result w) =
           Some [(''content'', PStr content),
                 (''filename'', PStr (''research_summary_'' @
                    map (\<lambda>c. if c = CHR '' '' then CHR ''_'' else c) query @ ''.md''))]))
 \<and> (\<not> exportable search_result \<longrightarrow>
      fst (ResearchAPI_export_results env query search_result w) = None)
 \<and> (exportable search_result \<longrightarrow>
      (\<exists>content.
         fst (ResearchAPI_export_results env ''deep learning'' search_result w) =
           Some [(''content'', PStr content),
                 (''filename'', PStr ''research_summary_deep_learning.md'')]))"
proof -
  have some: "\<exists>content.
         fst (ResearchAPI_export_results env q search_result w) =
           Some [(''content'', PStr content),
                 (''filename'', PStr (''research_summary_'' @
                    map (\<lambda>c. if c = CHR '' '' then CHR ''_'' else c) q @ ''.md''))]"
    if "exportable search_result" for q
  proof -
    have "returns (export_document (repr env) q search_result)"
      unfolding export_document_returns by (rule that)
    then obtain result where r: "export_document (repr env) q search_result = Inr result"
      unfolding returns_iff by (elim exE)
    from export_document_filename [OF r] r show ?thesis
      by (simp add: ResearchAPI_export_results_def)
  qed
  have none: "fst (ResearchAPI_export_results env query search_result w) = None"
    if "\<not> exportable search_result"
  proof -
    have "\<not> returns (export_document (repr env) query search_result)"
      unfolding export_document_returns by (rule that)
    then show ?thesis
      by (cases "export_document (repr env) query search_result")
         (simp_all add: ResearchAPI_export_results_def)
  qed
  have deep: "\<exists>content.
         fst (ResearchAPI_export_results env ''deep learning'' search_result w) =
           Some [(''content'', PStr content),
                 (''filename'', PStr ''research_summary_deep_learning.md'')]"
    if "exportable search_result"
    using some [OF that, of "''deep learning''"] by simp
  show ?thesis
  proof (intro conjI impI)
    assume "exportable search_result"
    then show "\<exists>content.
         fst (ResearchAPI_export_results env query search_result w) =
           Some [(''content'', PStr content),
                 (''filename'', PStr (''research_summary_'' @
                    map (\<lambda>c. if c = CHR '' '' then CHR ''_'' else c) query @ ''.md''))]"
      by (rule some)
  next
    assume "\<not> exportable search_result"
    then show "fst (ResearchAPI_export_results env query search_result w) = None"
      by (rule none)
  next
    assume "exportable search_result"
    then show "\<exists>content.
         fst (ResearchAPI_export_results env ''deep learning'' search_result w) =
           Some [(''content'', PStr content),
                 (''filename'', PStr ''research_summary_deep_learning.md'')]"
      by (rule deep)
  qed
qed

lemma example_result_exportable: "exportable example_result"
  by (simp add: exportable_def example_result_def iter_def slice_to_def
      exportable_paper_def example_paper_def joinable_def is_str_def is_dict_def)

lemma nameless_author_paper:
  "paper_of_entry (example_entry\<lparr>author_name_els := [Element None]\<rparr>) =
     Inr (PDict
       [(''title'', PStr ''Deep Nets''),
        (''authors'', PList [PNone]),
        (''abstract'', PStr ''We study nets.''),
        (''published'', PStr ''2024-01-02''),
        (''url'', PStr ''http://arxiv.org/abs/2401.00001v1''),
        (''arxiv_id'', PStr ''2401.00001v1'')])"
  by (simp add: paper_of_entry_def example_entry_def text_strip_def text_of_def
      author_name_def strip_def isspace_def)

lemma nameless_author_not_exportable: "\<not> exportable nameless_author_result"
  by (simp add: exportable_def nameless_author_result_def iter_def slice_to_def
      exportable_paper_def joinable_def is_str_def is_dict_def)

theorem export_filename_witness:
  "exportable example_result
 \<and> (\<exists>content.
       fst (ResearchAPI_export_results example_env ''deep learning'' example_result
              example_world) =
         Some [(''content'', PStr content),
               (''filename'', PStr ''research_summary_deep_learning.md'')])
 \<and> \<not> exportable nameless_author_result
 \<and> fst (ResearchAPI_export_results example_env ''deep learning'' nameless_author_result
          example_world) = None"
proof -
  note export_filename [where search_result = example_result and env = example_env
      and query = "''deep learning''" and w = example_world,
      THEN conjunct2, THEN conjunct2, THEN mp, OF example_result_exportable]
  moreover note export_filename [where search_result = nameless_author_result
      and env = example_env and query = "''deep learning''" and w = example_world,
      THEN conjunct2, THEN conjunct1, THEN mp, OF nameless_author_not_exportable]
  ultimately show ?thesis
    using example_result_exportable nameless_author_not_exportable by (intro conjI)
qed

section \<open>Unavailable citation counts\<close>

lemma display_unavailable:
  assumes "map_of result ''citation_counts'' =
     Some (PDict [(''citations'', PInt 0), (''references'', PInt 0),
                  (''status'', PStr ''Semantic Scholar unavailable'')])"
  shows "display_insights_panel_citations result =
           Inr [Citation_heading, St_metric ''Citations'' (PInt 0),
                St_metric ''References'' (PInt 0), Unavailable_note]"
    and "create_citation_visualization result = Inr [No_visualization_note]"
  using assms
  by (simp_all add: display_insights_panel_citations_def create_citation_visualization_def
      dict_get_def truthy_def get_def positive_number_def st_metric_def metric_accepts_def)

lemma display_available:
  assumes "map_of result ''citation_counts'' =
     Some (PDict [(''citations'', c), (''references'', r)])"
  shows "display_insights_panel_citations result =
           (if metric_accepts c \<and> metric_accepts r
            then Inr [Citation_heading, St_metric ''Citations'' c, St_metric ''References'' r]
            else Inl TypeError)"
  using assms
  by (simp add: display_insights_panel_citations_def dict_get_def truthy_def get_def
      st_metric_def)

lemma lookup_failed_object:
  "lookup_failed r \<Longrightarrow> \<not> non_object_body r"
  by (auto simp: lookup_failed_def non_object_body_def
      split: scholar_response.splits option.splits)

text \<open>
  C1, as stated, fails. After a failed lookup (status 404) the bundle holds the counts
  0 and 0, and the page shows them as such: \<^verbatim>\<open>display_insights_panel\<close> renders the
  metric Citations 0, the same metric it renders for a paper that Semantic Scholar
  knows to have no citations, and \<^verbatim>\<open>create_citation_visualization\<close> renders the same
  for both.
\<close>

theorem unavailable_shown_as_zero_counterexample:
  "lookup_failed (scholar_get example_env 1
     (''https://api.semanticscholar.org/graph/v1/paper/arXiv:'' @ ''2401.00001v1''))
 \<and> scholar_get zero_citations_env 1
     (''https://api.semanticscholar.org/graph/v1/paper/arXiv:'' @ ''2401.00001v1'') =
       Scholar_response 200
         (Some (PDict [(''paperId'', PStr ''abc''), (''citationCount'', PInt 0),
                       (''referenceCount'', PInt 0)]))
 \<and> display_insights_panel_citations
       (the (fst (ResearchAPI_search_papers example_env ''nets'' example_world))) =
     Inr [Citation_heading, St_metric ''Citations'' (PInt 0),
          St_metric ''References'' (PInt 0), Unavailable_note]
 \<and> display_insights_panel_citations
       (the (fst (ResearchAPI_search_papers zero_citations_env ''nets'' example_world))) =
     Inr [Citation_heading, St_metric ''Citations'' (PInt 0),
          St_metric ''References'' (PInt 0)]
 \<and> create_citation_visualization
       (the (fst (ResearchAPI_search_papers example_env ''nets'' example_world))) =
     create_citation_visualization
       (the (fst (ResearchAPI_search_papers zero_citations_env ''nets'' example_world)))"
proof -
  have q: "''nets'' \<noteq> []" by simp
  have 1: "the (fst (ResearchAPI_search_papers example_env ''nets'' example_world)) =
    example_result"
    by (simp add: example_search_result [OF q])
  have 2: "the (fst (ResearchAPI_search_papers zero_citations_env ''nets'' example_world)) =
    zero_citations_result"
    by (simp add: zero_citations_search_result [OF q])
  have 3: "map_of example_result ''citation_counts'' =
     Some (PDict [(''citations'', PInt 0), (''references'', PInt 0),
                  (''status'', PStr ''Semantic Scholar unavailable'')])"
    by (simp add: example_result_def)
  have 4: "map_of zero_citations_result ''citation_counts'' =
     Some (PDict [(''citations'', PInt 0), (''references'', PInt 0)])"
    by (simp add: zero_citations_result_def)
  have 5: "create_citation_visualization zero_citations_result = Inr [No_visualization_note]"
    using 4
    by (simp add: create_citation_visualization_def dict_get_def get_def
        positive_number_def)
  have 6: "lookup_failed (scholar_get example_env 1
     (''https://api.semanticscholar.org/graph/v1/paper/arXiv:'' @ ''2401.00001v1''))"
    by (simp add: example_env_def lookup_failed_def)
  have 7: "scholar_get zero_citations_env 1
     (''https://api.semanticscholar.org/graph/v1/paper/arXiv:'' @ ''2401.00001v1'') =
       Scholar_response 200
         (Some (PDict [(''paperId'', PStr ''abc''), (''citationCount'', PInt 0),
                       (''referenceCount'', PInt 0)]))"
    by (simp add: zero_citations_env_def)
  have 8: "metric_accepts (PInt 0)" by (simp add: metric_accepts_def)
  show ?thesis
    unfolding 1 2 display_unavailable [OF 3] display_available [OF 4] 5
    using 6 7 8 by (intro conjI) simp_all
qed

text \<open>
  C1, amended. For a query that is not empty and at least one paper from arXiv: when
  the lookup of the first paper fails, the citation counts of the bundle are 0 and 0
  together with the entry status "Semantic Scholar unavailable", the panel shows
  Citations 0 and References 0 followed by the note that the data are unavailable, and
  the visualization is replaced by its note. When the lookup succeeds with a non-empty
  JSON object, the citation counts of the bundle are the two counts of the answer (0
  where the answer has none) without a status entry; the panel shows them without the
  note when both are values \<^verbatim>\<open>st.metric\<close> accepts, and otherwise \<^verbatim>\<open>st.metric\<close> raises
  a \<^verbatim>\<open>TypeError\<close> that leaves the panel. So the two cases differ in the bundle and in
  the panel.
\<close>

theorem unavailable_counts_carry_a_status:
  assumes "query \<noteq> []"
    and "fst (ArxivAPI_search_papers env query 5 w) = papers" and "papers \<noteq> []"
    and "getitem (hd papers) ''arxiv_id'' = Inr first_paper_id"
  shows "(lookup_failed (scholar_get env (length (calls w) + 1)
            (''https://api.semanticscholar.org/graph/v1/paper/arXiv:'' @
               fmt (repr env) first_paper_id)) \<longrightarrow>
          (\<exists>result.
              fst (ResearchAPI_search_papers env query w) = Some result
            \<and> map_of result ''citation_counts'' =
                Some (PDict [(''citations'', PInt 0), (''references'', PInt 0),
                             (''status'', PStr ''Semantic Scholar unavailable'')])
            \<and> display_insights_panel_citations result =
                Inr [Citation_heading, St_metric ''Citations'' (PInt 0),
                     St_metric ''References'' (PInt 0), Unavailable_note]
            \<and> create_citation_visualization result = Inr [No_visualization_note]))
       \<and> (\<forall>data. scholar_get env (length (calls w) + 1)
            (''https://api.semanticscholar.org/graph/v1/paper/arXiv:'' @
               fmt (repr env) first_paper_id) = Scholar_response 200 (Some (PDict data))
            \<and> data \<noteq> [] \<longrightarrow>
          (\<exists>result.
              fst (ResearchAPI_search_papers env query w) = Some result
            \<and> map_of result ''citation_counts'' =
                Some (PDict [(''citations'', dict_get data ''citationCount'' (PInt 0)),
                             (''references'', dict_get data ''referenceCount'' (PInt 0))])
            \<and> map_of [(''citations'', dict_get data ''citationCount'' (PInt 0)),
                       (''references'', dict_get data ''referenceCount'' (PInt 0))]
                  ''status'' = None
            \<and> display_insights_panel_citations result =
                (if metric_accepts (dict_get data ''citationCount'' (PInt 0))
                    \<and> metric_accepts (dict_get data ''referenceCount'' (PInt 0))
                 then Inr [Citation_heading,
                           St_metric ''Citations'' (dict_get data ''citationCount'' (PInt 0)),
                           St_metric ''References'' (dict_get data ''referenceCount'' (PInt 0))]
                 else Inl TypeError)))"
proof -
  let ?w1 = "snd (ArxivAPI_search_papers env query 5 w)"
  let ?answer = "scholar_get env (length (calls w) + 1)
            (''https://api.semanticscholar.org/graph/v1/paper/arXiv:'' @
               fmt (repr env) first_paper_id)"
  let ?details = "fst (SemanticScholarAPI_get_paper_details env first_paper_id ?w1)"
  have t: "length (calls ?w1) = length (calls w) + 1"
    by (simp add: arxiv_calls)
  have built: "\<exists>related_works citation_counts ai_summary explain_like_15 kws trends
            open_challenges.
           citation_counts_of ?details = Inr citation_counts
         \<and> fst (ResearchAPI_search_papers env query w) =
             Some [(''papers'', PList papers),
                   (''ai_summary'', PStr ai_summary),
                   (''explain_like_15'', PStr explain_like_15),
                   (''keywords'', PList (map PStr kws)),
                   (''related_works'', related_works),
                   (''citation_counts'', PDict citation_counts),
                   (''trends'', PStr trends),
                   (''open_challenges'', PStr open_challenges)]"
    if "\<not> non_object_body ?answer"
    using search_papers_object [OF assms that] by (elim exE conjE) (intro exI conjI)
  have failed: "\<exists>result.
              fst (ResearchAPI_search_papers env query w) = Some result
            \<and> map_of result ''citation_counts'' =
                Some (PDict [(''citations'', PInt 0), (''references'', PInt 0),
                             (''status'', PStr ''Semantic Scholar unavailable'')])
            \<and> display_insights_panel_citations result =
                Inr [Citation_heading, St_metric ''Citations'' (PInt 0),
                     St_metric ''References'' (PInt 0), Unavailable_note]
            \<and> create_citation_visualization result = Inr [No_visualization_note]"
    if f: "lookup_failed ?answer"
  proof -
    from f have d: "?details = PDict []"
      by (intro details_failed) (simp only: t)
    from built [OF lookup_failed_object [OF f]]
    obtain related_works citation_counts ai_summary explain_like_15 kws trends open_challenges
      where c: "citation_counts_of ?details = Inr citation_counts"
        and r: "fst (ResearchAPI_search_papers env query w) =
             Some [(''papers'', PList papers),
                   (''ai_summary'', PStr ai_summary),
                   (''explain_like_15'', PStr explain_like_15),
                   (''keywords'', PList (map PStr kws)),
                   (''related_works'', related_works),
                   (''citation_counts'', PDict citation_counts),
                   (''trends'', PStr trends),
                   (''open_challenges'', PStr open_challenges)]"
      by (elim exE conjE)
    let ?result = "[(''papers'', PList papers),
                   (''ai_summary'', PStr ai_summary),
                   (''explain_like_15'', PStr explain_like_15),
                   (''keywords'', PList (map PStr kws)),
                   (''related_works'', related_works),
                   (''citation_counts'', PDict citation_counts),
                   (''trends'', PStr trends),
                   (''open_challenges'', PStr open_challenges)]"
    from c have "citation_counts = [(''citations'', PInt 0), (''references'', PInt 0),
                             (''status'', PStr ''Semantic Scholar unavailable'')]"
      by (simp add: d citation_counts_of_dict)
    then have m: "map_of ?result ''citation_counts'' =
                Some (PDict [(''citations'', PInt 0), (''references'', PInt 0),
                             (''status'', PStr ''Semantic Scholar unavailable'')])"
      by simp
    from r m display_unavailable [OF m] show ?thesis
      by (intro exI [of _ ?result] conjI)
  qed
  have found: "\<exists>result.
              fst (ResearchAPI_search_papers env query w) = Some result
            \<and> map_of result ''citation_counts'' =
                Some (PDict [(''citations'', dict_get data ''citationCount'' (PInt 0)),
                             (''references'', dict_get data ''referenceCount'' (PInt 0))])
            \<and> map_of [(''citations'', dict_get data ''citationCount'' (PInt 0)),
                       (''references'', dict_get data ''referenceCount'' (PInt 0))]
                  ''status'' = None
            \<and> display_insights_panel_citations result =
                (if metric_accepts (dict_get data ''citationCount'' (PInt 0))
                    \<and> metric_accepts (dict_get data ''referenceCount'' (PInt 0))
                 then Inr [Citation_heading,
                           St_metric ''Citations'' (dict_get data ''citationCount'' (PInt 0)),
                           St_metric ''References'' (dict_get data ''referenceCount'' (PInt 0))]
                 else Inl TypeError)"
    if a: "?answer = Scholar_response 200 (Some (PDict data))" and ne: "data \<noteq> []"
    for data
  proof -
    from a have n: "\<not> non_object_body ?answer"
      by (simp add: non_object_body_def)
    from a have d: "?details = PDict data"
      by (intro details_found) (simp only: t)
    from built [OF n]
    obtain related_works citation_counts ai_summary explain_like_15 kws trends open_challenges
      where c: "citation_counts_of ?details = Inr citation_counts"
        and r: "fst (ResearchAPI_search_papers env query w) =
             Some [(''papers'', PList papers),
                   (''ai_summary'', PStr ai_summary),
                   (''explain_like_15'', PStr explain_like_15),
                   (''keywords'', PList (map PStr kws)),
                   (''related_works'', related_works),
                   (''citation_counts'', PDict citation_counts),
                   (''trends'', PStr trends),
                   (''open_challenges'', PStr open_challenges)]"
      by (elim exE conjE)
    let ?result = "[(''papers'', PList papers),
                   (''ai_summary'', PStr ai_summary),
                   (''explain_like_15'', PStr explain_like_15),
                   (''keywords'', PList (map PStr kws)),
                   (''related_works'', related_works),
                   (''citation_counts'', PDict citation_counts),
                   (''trends'', PStr trends),
                   (''open_challenges'', PStr open_challenges)]"
    from c ne have "citation_counts =
        [(''citations'', dict_get data ''citationCount'' (PInt 0)),
         (''references'', dict_get data ''referenceCount'' (PInt 0))]"
      by (simp add: d citation_counts_of_dict)
    then have m: "map_of ?result ''citation_counts'' =
                Some (PDict [(''citations'', dict_get data ''citationCount'' (PInt 0)),
                             (''references'', dict_get data ''referenceCount'' (PInt 0))])"
      by simp
    have s: "map_of [(''citations'', dict_get data ''citationCount'' (PInt 0)),
                       (''references'', dict_get data ''referenceCount'' (PInt 0))]
                  ''status'' = None"
      by simp
    from r m s display_available [OF m] show ?thesis
      by (intro exI [of _ ?result] conjI)
  qed
  show ?thesis
  proof (rule conjI; (rule allI)?; rule impI)
    assume "lookup_failed ?answer"
    then show "\<exists>result.
              fst (ResearchAPI_search_papers env query w) = Some result
            \<and> map_of result ''citation_counts'' =
                Some (PDict [(''citations'', PInt 0), (''references'', PInt 0),
                             (''status'', PStr ''Semantic Scholar unavailable'')])
            \<and> display_insights_panel_citations result =
                Inr [Citation_heading, St_metric ''Citations'' (PInt 0),
                     St_metric ''References'' (PInt 0), Unavailable_note]
            \<and> create_citation_visualization result = Inr [No_visualization_note]"
      by (rule failed)
  next
    fix data
    assume "?answer = Scholar_response 200 (Some (PDict data)) \<and> data \<noteq> []"
    then have "?answer = Scholar_response 200 (Some (PDict data))" "data \<noteq> []"
      by (rule conjunct1, rule conjunct2)
    then show "\<exists>result.
              fst (ResearchAPI_search_papers env query w) = Some result
            \<and> map_of result ''citation_counts'' =
                Some (PDict [(''citations'', dict_get data ''citationCount'' (PInt 0)),
                             (''references'', dict_get data ''referenceCount'' (PInt 0))])
            \<and> map_of [(''citations'', dict_get data ''citationCount'' (PInt 0)),
                       (''references'', dict_get data ''referenceCount'' (PInt 0))]
                  ''status'' = None
            \<and> display_insights_panel_citations result =
                (if metric_accepts (dict_get data ''citationCount'' (PInt 0))
                    \<and> metric_accepts (dict_get data ''referenceCount'' (PInt 0))
                 then Inr [Citation_heading,
                           St_metric ''Citations'' (dict_get data ''citationCount'' (PInt 0)),
                           St_metric ''References'' (dict_get data ''referenceCount'' (PInt 0))]
                 else Inl TypeError)"
      by (rule found)
  qed
qed

theorem unavailable_counts_carry_a_status_witness:
  "''nets'' \<noteq> []
 \<and> fst (ArxivAPI_search_papers example_env ''nets'' 5 example_world) = [example_paper]
 \<and> [example_paper] \<noteq> []
 \<and> getitem (hd [example_paper]) ''arxiv_id'' = Inr (PStr ''2401.00001v1'')
 \<and> lookup_failed (scholar_get example_env (length (calls example_world) + 1)
            (''https://api.semanticscholar.org/graph/v1/paper/arXiv:'' @
               fmt (repr example_env) (PStr ''2401.00001v1'')))
 \<and> (\<exists>result.
        fst (ResearchAPI_search_papers example_env ''nets'' example_world) = Some result
      \<and> map_of result ''citation_counts'' =
          Some (PDict [(''citations'', PInt 0), (''references'', PInt 0),
                       (''status'', PStr ''Semantic Scholar unavailable'')])
      \<and> display_insights_panel_citations result =
          Inr [Citation_heading, St_metric ''Citations'' (PInt 0),
               St_metric ''References'' (PInt 0), Unavailable_note]
      \<and> create_citation_visualization result = Inr [No_visualization_note])"
proof -
  have 1: "''nets'' \<noteq> []" by simp
  have 2: "fst (ArxivAPI_search_papers example_env ''nets'' 5 example_world) =
    [example_paper]"
    by (simp add: example_papers)
  have 3: "[example_paper] \<noteq> []" by simp
  have 4: "getitem (hd [example_paper]) ''arxiv_id'' = Inr (PStr ''2401.00001v1'')"
    by (simp add: example_paper_id)
  have 5: "lookup_failed (scholar_get example_env (length (calls example_world) + 1)
            (''https://api.semanticscholar.org/graph/v1/paper/arXiv:'' @
               fmt (repr example_env) (PStr ''2401.00001v1'')))"
    by (simp add: example_env_def lookup_failed_def)
  note unavailable_counts_carry_a_status [OF 1 2 3 4, THEN conjunct1, THEN mp, OF 5]
  with 1 2 3 4 5 show ?thesis by (intro conjI)
qed

end
